theory Spec2Isabelle
  imports Main
begin

section \<open>The raw-socket client and server of BasicNetworkingTestSuite.cpp\<close>

text \<open>
  The two procedures \<^verbatim>\<open>setup_server\<close> and \<^verbatim>\<open>setup_client\<close> are sequential
  programs whose only inputs are the values the socket library hands back. A run is
  therefore modelled as a function of those replies (the record \<open>os\<close>), and what the
  program does is the chronological list of library calls it makes, each with its
  arguments and its reply (the \<open>event list\<close>), together with the way the procedure ends
  (\<open>outcome\<close>).
\<close>

subsection \<open>Data\<close>

text \<open>\<^verbatim>\<open>SOCKET\<close>: a descriptor; the source compares it with the literal \<^verbatim>\<open>-1\<close>.\<close>

type_synonym SOCKET = int

text \<open>The fields of \<^verbatim>\<open>addrinfo\<close> the two procedures read. The linked list
  \<^verbatim>\<open>ai_next\<close> is a HOL list, the null pointer the empty list.\<close>

record addrinfo =
  ai_family :: int
  ai_socktype :: int
  ai_protocol :: int
  ai_addr :: "nat list"
  ai_addrlen :: nat

text \<open>
  What one call of \<^verbatim>\<open>recv\<close> hands back: a failure (the return value \<^verbatim>\<open>-1\<close>,
  nothing stored), or the bytes it stored at the start of the buffer (the return value is
  their number, \<^verbatim>\<open>0\<close> when the peer has closed the connection).
\<close>

datatype recv_reply = RecvError | RecvBytes string

fun recv_ret :: "recv_reply \<Rightarrow> int" where
  "recv_ret RecvError = - 1"
| "recv_ret (RecvBytes bs) = int (length bs)"

fun recv_data :: "recv_reply \<Rightarrow> string" where
  "recv_data RecvError = []"
| "recv_data (RecvBytes bs) = bs"

text \<open>
  The replies of the socket library during one run. \<open>recv_replies\<close> and \<open>send_rets\<close>
  are consumed in order, one per call; a call that finds its list empty never returns
  (the calls block).
\<close>

record os =
  getaddrinfo_status :: int
  getaddrinfo_res :: "addrinfo list"
  socket_ret :: SOCKET
  bind_ret :: int
  listen_ret :: int
  accept_ret :: SOCKET
  connect_ret :: int
  recv_replies :: "recv_reply list"
  send_rets :: "int list"

text \<open>
  The calls a run makes and its output. The last argument of a call is what it
  returned; \<open>GetAddrInfo service status list\<close> also carries the list it stored in
  \<^verbatim>\<open>res\<close>, \<open>Recv fd len ret bytes\<close> the bytes it stored in the buffer, and
  \<open>Send fd payload len ret\<close> the payload and the length it was asked to send.
\<close>

datatype event =
    GetAddrInfo string int "addrinfo list"
  | PrintAddrInfo "addrinfo list"
  | Socket int int int SOCKET
  | Bind SOCKET "nat list" int int
  | Listen SOCKET int int
  | Accept SOCKET SOCKET
  | Connect SOCKET "nat list" int int
  | Recv SOCKET int int string
  | Send SOCKET string int int
  | Stdout string
  | CloseSocket SOCKET
  | FreeAddrInfo "addrinfo list"

text \<open>
  How a procedure ends: it returns, it throws \<^verbatim>\<open>std::runtime_error\<close> (whose only
  content is the message), it stays blocked in \<^verbatim>\<open>recv\<close> or \<^verbatim>\<open>send\<close>, or it
  leaves defined behaviour (a null \<^verbatim>\<open>res\<close> dereferenced, a write past the buffer).
\<close>

datatype outcome = Returned | Threw string | Blocked | Undefined

definition END_MESSAGE :: string where
  "END_MESSAGE = ''END_MESSAGE''"

definition PORT_TEST :: string where
  "PORT_TEST = ''20453''"

subsection \<open>\<^verbatim>\<open>RAIIRawSocketInfos\<close>\<close>

record RAIIRawSocketInfos =
  res :: "addrinfo list"
  socketFd :: SOCKET
  clientFd :: SOCKET

text \<open>The constructor.\<close>

definition RAIIRawSocketInfos_ctor :: RAIIRawSocketInfos where
  "RAIIRawSocketInfos_ctor = \<lparr> res = [], socketFd = - 1, clientFd = - 1 \<rparr>"

text \<open>
  The destructor: the calls it makes, in order. It assigns to no member, so the object
  it leaves is the one it found; \<open>RAIIRawSocketInfos_dtor\<close> returns it for that reason.
\<close>

definition RAIIRawSocketInfos_dtor :: "RAIIRawSocketInfos \<Rightarrow> RAIIRawSocketInfos \<times> event list" where
  "RAIIRawSocketInfos_dtor s =
     (s,
      (if clientFd s \<noteq> - 1 then [CloseSocket (clientFd s)] else []) @
      (if socketFd s \<noteq> - 1 then [CloseSocket (socketFd s)] else []) @
      (if res s \<noteq> [] then [FreeAddrInfo (res s)] else []))"

text \<open>
  Leaving the scope of the object: on a return and on a throw the destructor runs after
  everything the body did; a run that is blocked or undefined has not left the scope.
\<close>

fun leave_scope :: "RAIIRawSocketInfos \<times> event list \<times> outcome \<Rightarrow> event list \<times> outcome" where
  "leave_scope (s, tr, Returned) = (tr @ snd (RAIIRawSocketInfos_dtor s), Returned)"
| "leave_scope (s, tr, Threw m) = (tr @ snd (RAIIRawSocketInfos_dtor s), Threw m)"
| "leave_scope (s, tr, Blocked) = (tr, Blocked)"
| "leave_scope (s, tr, Undefined) = (tr, Undefined)"

subsection \<open>The receive buffer\<close>

text \<open>The zero byte, and the C string a \<^verbatim>\<open>char*\<close> denotes: the bytes before the
  first zero byte (\<^verbatim>\<open>strlen\<close>, which \<^verbatim>\<open>boost::string_ref(const char*)\<close> and
  \<^verbatim>\<open>operator<<\<close> use).\<close>

definition NUL :: char where
  "NUL = CHR 0x00"

definition c_str :: "string \<Rightarrow> string" where
  "c_str buffer = takeWhile (\<lambda>c. c \<noteq> NUL) buffer"

text \<open>\<^verbatim>\<open>recv\<close> stores the received bytes at the start of the buffer and leaves the
  rest of it as it was.\<close>

definition recv_store :: "string \<Rightarrow> string \<Rightarrow> string" where
  "recv_store buffer bs = bs @ drop (length bs) buffer"

subsection \<open>\<^verbatim>\<open>setup_server\<close>\<close>

text \<open>
  The \<^verbatim>\<open>while\<close> loop of \<^verbatim>\<open>setup_server\<close> with the test that follows it.
  \<open>buffer\<close> is the \<^verbatim>\<open>std::array<char, 64>\<close>, whose first contents are whatever the
  stack holds. The write \<^verbatim>\<open>buffer[bytesRead] = 0\<close> is undefined past the array.
\<close>

fun server_loop :: "SOCKET \<Rightarrow> string \<Rightarrow> recv_reply list \<Rightarrow> int list \<Rightarrow> event list \<times> outcome" where
  "server_loop fd buffer [] ss = ([], Blocked)"
| "server_loop fd buffer (r # rs) ss =
     (let bytesRead = recv_ret r;
          received = Recv fd (int (length buffer) - 1) bytesRead (recv_data r)
      in if bytesRead > 0 then
           (if length buffer \<le> nat bytesRead then ([received], Undefined)
            else
              (let buffer' = (recv_store buffer (recv_data r))[nat bytesRead := NUL];
                   printed = Stdout (''server received: '' @ c_str buffer' @ [CHR 0x0A])
               in if c_str buffer' = END_MESSAGE then ([received, printed], Returned)
                  else
                    (case ss of
                       [] \<Rightarrow> ([received, printed], Blocked)
                     | s # ss' \<Rightarrow>
                         if s \<noteq> 2 then ([received, printed, Send fd ''OK'' 2 s], Threw ''send error'')
                         else
                           (case server_loop fd buffer' rs ss' of
                              (tr, oc) \<Rightarrow> (received # printed # Send fd ''OK'' 2 s # tr, oc)))))
         else ([received], if bytesRead = - 1 then Threw ''recv error'' else Returned))"

text \<open>The body of \<^verbatim>\<open>setup_server\<close>: the object \<^verbatim>\<open>socketInfos\<close> as it is when the
  body ends, the calls made, and how the body ends.\<close>

definition server_body :: "os \<Rightarrow> string \<Rightarrow> RAIIRawSocketInfos \<times> event list \<times> outcome" where
  "server_body env buffer =
     (let status = getaddrinfo_status env;
          s1 = RAIIRawSocketInfos_ctor \<lparr> res := getaddrinfo_res env \<rparr>;
          t1 = [GetAddrInfo PORT_TEST status (res s1)]
      in if status \<noteq> 0 then (s1, t1, Threw ''getaddrinfo error'')
         else
           (let t2 = t1 @ [PrintAddrInfo (res s1)]
            in case res s1 of
                 [] \<Rightarrow> (s1, t2, Undefined)
               | a # _ \<Rightarrow>
                   (let s2 = s1 \<lparr> socketFd := socket_ret env \<rparr>;
                        t3 = t2 @ [Socket (ai_family a) (ai_socktype a) (ai_protocol a) (socketFd s2)]
                    in if socketFd s2 = - 1 then (s2, t3, Threw ''socket error'')
                       else
                         (let t4 = t3 @ [Bind (socketFd s2) (ai_addr a) (int (ai_addrlen a)) (bind_ret env)]
                          in if bind_ret env = - 1 then (s2, t4, Threw ''bind error'')
                             else
                               (let backlog = 2;
                                    t5 = t4 @ [Listen (socketFd s2) backlog (listen_ret env)]
                                in if listen_ret env = - 1 then (s2, t5, Threw ''listen error'')
                                   else
                                     (let s3 = s2 \<lparr> clientFd := accept_ret env \<rparr>;
                                          t6 = t5 @ [Accept (socketFd s3) (clientFd s3)]
                                      in if clientFd s3 = - 1 then (s3, t6, Threw ''client error'')
                                         else
                                           (case server_loop (clientFd s3) buffer
                                                   (recv_replies env) (send_rets env) of
                                              (tr, oc) \<Rightarrow> (s3, t6 @ tr, oc))))))))"

definition setup_server :: "os \<Rightarrow> string \<Rightarrow> event list \<times> outcome" where
  "setup_server env buffer = leave_scope (server_body env buffer)"

subsection \<open>\<^verbatim>\<open>setup_client\<close>\<close>

text \<open>The part of \<^verbatim>\<open>setup_client\<close> after \<^verbatim>\<open>connect\<close>: one send, one receive,
  one send.\<close>

definition client_exchange :: "SOCKET \<Rightarrow> string \<Rightarrow> recv_reply list \<Rightarrow> int list \<Rightarrow> event list \<times> outcome" where
  "client_exchange fd buffer rs ss =
     (let m1 = ''hello''; sizeM = int (length m1)
      in case ss of
           [] \<Rightarrow> ([], Blocked)
         | w1 # ss' \<Rightarrow>
             (let t1 = [Send fd m1 sizeM w1]
              in if w1 \<noteq> sizeM then (t1, Threw ''send error'')
                 else
                   (case rs of
                      [] \<Rightarrow> (t1, Blocked)
                    | r # _ \<Rightarrow>
                        (let bytesRead = recv_ret r;
                             t2 = t1 @ [Recv fd (int (length buffer) - 1) bytesRead (recv_data r)]
                         in if bytesRead < 0 then (t2, Threw ''recv error'')
                            else if length buffer \<le> nat bytesRead then (t2, Undefined)
                            else
                              (let buffer' = (recv_store buffer (recv_data r))[nat bytesRead := NUL];
                                   t3 = t2 @ [Stdout (''client received: '' @ c_str buffer' @ [CHR 0x0A])];
                                   sizeM' = int (length END_MESSAGE)
                               in case ss' of
                                    [] \<Rightarrow> (t3, Blocked)
                                  | w2 # _ \<Rightarrow>
                                      (t3 @ [Send fd END_MESSAGE sizeM' w2],
                                       if w2 \<noteq> sizeM' then Threw ''send error'' else Returned))))))"

definition client_body :: "os \<Rightarrow> string \<Rightarrow> RAIIRawSocketInfos \<times> event list \<times> outcome" where
  "client_body env buffer =
     (let status = getaddrinfo_status env;
          s1 = RAIIRawSocketInfos_ctor \<lparr> res := getaddrinfo_res env \<rparr>;
          t1 = [GetAddrInfo PORT_TEST status (res s1)]
      in if status \<noteq> 0 then (s1, t1, Threw ''getaddrinfo error'')
         else
           (let t2 = t1 @ [PrintAddrInfo (res s1)]
            in case res s1 of
                 [] \<Rightarrow> (s1, t2, Undefined)
               | a # _ \<Rightarrow>
                   (let s2 = s1 \<lparr> socketFd := socket_ret env \<rparr>;
                        t3 = t2 @ [Socket (ai_family a) (ai_socktype a) (ai_protocol a) (socketFd s2)]
                    in if socketFd s2 = - 1 then (s2, t3, Threw ''socket error'')
                       else
                         (let t4 = t3 @ [Connect (socketFd s2) (ai_addr a) (int (ai_addrlen a)) (connect_ret env)]
                          in if connect_ret env = - 1 then (s2, t4, Threw ''connect error'')
                             else
                               (case client_exchange (socketFd s2) buffer
                                       (recv_replies env) (send_rets env) of
                                  (tr, oc) \<Rightarrow> (s2, t4 @ tr, oc))))))"

definition setup_client :: "os \<Rightarrow> string \<Rightarrow> event list \<times> outcome" where
  "setup_client env buffer = leave_scope (client_body env buffer)"

subsection \<open>Reading a run\<close>

text \<open>
  What a run holds, read off its calls from left to right: a descriptor other than
  \<^verbatim>\<open>-1\<close> returned by \<^verbatim>\<open>socket\<close> or \<^verbatim>\<open>accept\<close> is held until
  \<^verbatim>\<open>closesocket\<close> is called on it, a non-null list stored by \<^verbatim>\<open>getaddrinfo\<close>
  until \<^verbatim>\<open>freeaddrinfo\<close> is called on it. \<open>track held tr\<close> is \<open>None\<close> when
  \<open>tr\<close> releases something that is not held at that moment (a second close, a close of
  a descriptor never acquired), and otherwise what is still held after \<open>tr\<close>.
\<close>

datatype resource = Descriptor SOCKET | AddressList "addrinfo list"

fun track :: "resource list \<Rightarrow> event list \<Rightarrow> resource list option" where
  "track held [] = Some held"
| "track held (GetAddrInfo service status l # tr) =
     track (if l \<noteq> [] then AddressList l # held else held) tr"
| "track held (Socket family socktype protocol fd # tr) =
     track (if fd \<noteq> - 1 then Descriptor fd # held else held) tr"
| "track held (Accept listener fd # tr) =
     track (if fd \<noteq> - 1 then Descriptor fd # held else held) tr"
| "track held (CloseSocket fd # tr) =
     (if Descriptor fd \<in> set held then track (remove1 (Descriptor fd) held) tr else None)"
| "track held (FreeAddrInfo l # tr) =
     (if AddressList l \<in> set held then track (remove1 (AddressList l) held) tr else None)"
| "track held (e # tr) = track held tr"

text \<open>The descriptors a run closes, in the order it closes them.\<close>

fun closed_fds :: "event list \<Rightarrow> SOCKET list" where
  "closed_fds [] = []"
| "closed_fds (CloseSocket fd # tr) = fd # closed_fds tr"
| "closed_fds (e # tr) = closed_fds tr"

text \<open>The calls that release: \<^verbatim>\<open>closesocket\<close> and \<^verbatim>\<open>freeaddrinfo\<close>.\<close>

fun is_release :: "event \<Rightarrow> bool" where
  "is_release (CloseSocket fd) = True"
| "is_release (FreeAddrInfo l) = True"
| "is_release e = False"

text \<open>The calls and the output of the message exchange itself.\<close>

fun is_exchange :: "event \<Rightarrow> bool" where
  "is_exchange (Recv fd len ret bs) = True"
| "is_exchange (Send fd payload len ret) = True"
| "is_exchange (Stdout text) = True"
| "is_exchange e = False"

text \<open>
  A trace and the way its run ended agree with fail-fast sending: every \<^verbatim>\<open>send\<close>
  carries one of the payloads \<open>allowed\<close> and is asked for the whole of it, and one that
  returns another number is followed by releases only and ends the run with the send
  error.
\<close>

fun sends_checked :: "string list \<Rightarrow> outcome \<Rightarrow> event list \<Rightarrow> bool" where
  "sends_checked allowed oc [] = True"
| "sends_checked allowed oc (Send fd payload len ret # tr) =
     (payload \<in> set allowed \<and> len = int (length payload) \<and>
      (if ret = len then sends_checked allowed oc tr
       else oc = Threw ''send error'' \<and> list_all is_release tr))"
| "sends_checked allowed oc (e # tr) = sends_checked allowed oc tr"

subsection \<open>Sample replies\<close>

text \<open>One resolved address, a buffer of 64 stale bytes, and the replies of a run in
  which every call succeeds, the client says \<^verbatim>\<open>hello\<close> and then the sentinel.\<close>

definition sample_addrinfo :: addrinfo where
  "sample_addrinfo =
     \<lparr> ai_family = 2, ai_socktype = 1, ai_protocol = 6, ai_addr = [127, 0, 0, 1], ai_addrlen = 16 \<rparr>"

definition stale_buffer :: string where
  "stale_buffer = replicate 64 (CHR ''#'')"

definition sample_os :: os where
  "sample_os =
     \<lparr> getaddrinfo_status = 0, getaddrinfo_res = [sample_addrinfo], socket_ret = 3,
       bind_ret = 0, listen_ret = 0, accept_ret = 4, connect_ret = 0,
       recv_replies = [RecvBytes ''hello'', RecvBytes ''END_MESSAGE''],
       send_rets = [2] \<rparr>"

section \<open>Properties\<close>

subsection \<open>The buffer after a receive\<close>

lemma takeWhile_stop: "\<not> P y \<Longrightarrow> takeWhile P (xs @ y # ys) = takeWhile P xs"
  by (induction xs) auto

lemma c_str_terminated:
  "length bs < length buffer \<Longrightarrow> c_str ((recv_store buffer bs)[length bs := NUL]) = c_str bs"
  by (simp add: c_str_def recv_store_def list_update_append upd_conv_take_nth_drop takeWhile_stop)

lemma length_recv_store:
  "length bs < length buffer \<Longrightarrow> length (recv_store buffer bs) = length buffer"
  by (simp add: recv_store_def)

lemma nth_terminated:
  "length bs < length buffer \<Longrightarrow> (recv_store buffer bs)[length bs := NUL] ! length bs = NUL"
  by (simp add: recv_store_def)

lemma take_terminated:
  "length bs < length buffer \<Longrightarrow> take (length bs) ((recv_store buffer bs)[length bs := NUL]) = bs"
  by (simp add: recv_store_def)

lemma c_str_no_NUL: "NUL \<notin> set bs \<Longrightarrow> c_str bs = bs"
  by (auto simp: c_str_def takeWhile_eq_all_conv)

subsection \<open>One turn of the server loop\<close>

lemma server_loop_bytes:
  assumes "bs \<noteq> []" and "length bs < length buffer"
  shows "server_loop fd buffer (RecvBytes bs # rs) ss =
     (if c_str bs = END_MESSAGE
      then ([Recv fd (int (length buffer) - 1) (int (length bs)) bs,
             Stdout (''server received: '' @ c_str bs @ [CHR 0x0A])], Returned)
      else (case ss of
              [] \<Rightarrow> ([Recv fd (int (length buffer) - 1) (int (length bs)) bs,
                      Stdout (''server received: '' @ c_str bs @ [CHR 0x0A])], Blocked)
            | s # ss' \<Rightarrow>
                if s \<noteq> 2
                then ([Recv fd (int (length buffer) - 1) (int (length bs)) bs,
                       Stdout (''server received: '' @ c_str bs @ [CHR 0x0A]),
                       Send fd ''OK'' 2 s], Threw ''send error'')
                else (Recv fd (int (length buffer) - 1) (int (length bs)) bs #
                      Stdout (''server received: '' @ c_str bs @ [CHR 0x0A]) #
                      Send fd ''OK'' 2 2 #
                      fst (server_loop fd ((recv_store buffer bs)[length bs := NUL]) rs ss'),
                      snd (server_loop fd ((recv_store buffer bs)[length bs := NUL]) rs ss'))))"
  using assms
  by (simp add: Let_def c_str_terminated split: list.split prod.split)

lemma server_loop_closed:
  "server_loop fd buffer (RecvBytes [] # rs) ss = ([Recv fd (int (length buffer) - 1) 0 []], Returned)"
  by simp

lemma server_loop_failed:
  "server_loop fd buffer (RecvError # rs) ss =
     ([Recv fd (int (length buffer) - 1) (- 1) []], Threw ''recv error'')"
  by simp

lemma server_loop_overflow:
  "length buffer \<le> length bs \<Longrightarrow> bs \<noteq> [] \<Longrightarrow>
   server_loop fd buffer (RecvBytes bs # rs) ss =
     ([Recv fd (int (length buffer) - 1) (int (length bs)) bs], Undefined)"
  by (simp add: Let_def)

text \<open>The loop never reads what an earlier turn or the stack left in the buffer: two
  buffers of the same size give the same run.\<close>

lemma server_loop_same_length:
  "length b1 = length b2 \<Longrightarrow> server_loop fd b1 rs ss = server_loop fd b2 rs ss"
proof (induction rs arbitrary: b1 b2 ss)
  case Nil
  then show ?case by simp
next
  case (Cons r rs)
  show ?case
  proof (cases r)
    case RecvError
    then show ?thesis using Cons.prems by simp
  next
    case (RecvBytes bs)
    show ?thesis
    proof (cases "bs = [] \<or> length b1 \<le> length bs")
      case True
      then show ?thesis using RecvBytes Cons.prems by (auto simp: Let_def)
    next
      case False
      then have fit: "bs \<noteq> []" "length bs < length b1" "length bs < length b2"
        using Cons.prems by auto
      have "length ((recv_store b1 bs)[length bs := NUL]) = length ((recv_store b2 bs)[length bs := NUL])"
        using fit Cons.prems by (simp add: length_recv_store)
      then have "\<And>ss'. server_loop fd ((recv_store b1 bs)[length bs := NUL]) rs ss' =
                 server_loop fd ((recv_store b2 bs)[length bs := NUL]) rs ss'"
        by (rule Cons.IH)
      then show ?thesis
        unfolding RecvBytes server_loop_bytes [OF fit(1) fit(2)] server_loop_bytes [OF fit(1) fit(3)]
        using Cons.prems by (simp split: list.split)
    qed
  qed
qed

declare server_loop.simps(2) [simp del]

subsection \<open>Any number of turns\<close>

text \<open>Messages that are not the sentinel, each acknowledged in full: the loop prints and
  acknowledges each one and goes on with the rest of the replies.\<close>

lemma server_loop_turns:
  assumes "\<forall>p \<in> set ps. p \<noteq> [] \<and> length p < length buffer \<and> c_str p \<noteq> END_MESSAGE"
  shows "server_loop fd buffer (map RecvBytes ps @ rest) (replicate (length ps) 2 @ ss) =
     (concat (map (\<lambda>p. [Recv fd (int (length buffer) - 1) (int (length p)) p,
                         Stdout (''server received: '' @ c_str p @ [CHR 0x0A]),
                         Send fd ''OK'' 2 2]) ps)
        @ fst (server_loop fd buffer rest ss),
      snd (server_loop fd buffer rest ss))"
  using assms
proof (induction ps arbitrary: buffer)
  case Nil
  then show ?case by simp
next
  case (Cons p ps)
  then have fit: "p \<noteq> []" "length p < length buffer" "c_str p \<noteq> END_MESSAGE"
    by auto
  let ?b = "(recv_store buffer p)[length p := NUL]"
  have len: "length ?b = length buffer"
    using fit by (simp add: length_recv_store)
  have rest: "\<forall>q \<in> set ps. q \<noteq> [] \<and> length q < length ?b \<and> c_str q \<noteq> END_MESSAGE"
    using Cons.prems len by simp
  have same: "server_loop fd ?b rest ss = server_loop fd buffer rest ss"
    using len by (rule server_loop_same_length)
  show ?case
    using fit Cons.IH [OF rest] len same
    by (simp add: server_loop_bytes)
qed

lemma c_str_END_MESSAGE_nonempty: "c_str q = END_MESSAGE \<Longrightarrow> q \<noteq> []"
  by (auto simp: c_str_def END_MESSAGE_def)

section \<open>The claims\<close>

subsection \<open>C1: the server loop\<close>

text \<open>
  C1, as amended. With a buffer of 64 bytes and for every sequence \<open>ps\<close> of received
  messages of 1 to 63 bytes whose bytes before the first zero byte (all of them when
  there is none) differ from \<^verbatim>\<open>END_MESSAGE\<close>, each acknowledged in full: the loop
  receives each message, sends exactly the 2-byte \<^verbatim>\<open>OK\<close> for it and receives again,
  that is, it goes on as the loop does on the remaining replies. On a message whose bytes
  before the first zero byte are \<^verbatim>\<open>END_MESSAGE\<close> it stops and returns normally, with
  no send for that message; as the first message (\<open>ps = []\<close>), with no \<^verbatim>\<open>OK\<close> at
  all.
\<close>

theorem server_loop_sentinel:
  assumes "length buffer = 64"
    and "\<forall>p \<in> set ps. p \<noteq> [] \<and> length p \<le> 63 \<and> c_str p \<noteq> END_MESSAGE"
    and "length q \<le> 63" and "c_str q = END_MESSAGE"
  shows "server_loop fd buffer (map RecvBytes ps @ rest) (replicate (length ps) 2 @ ss) =
           (concat (map (\<lambda>p. [Recv fd 63 (int (length p)) p,
                               Stdout (''server received: '' @ c_str p @ [CHR 0x0A]),
                               Send fd ''OK'' 2 2]) ps)
              @ fst (server_loop fd buffer rest ss),
            snd (server_loop fd buffer rest ss))
       \<and> server_loop fd buffer (RecvBytes q # rs) ss =
           ([Recv fd 63 (int (length q)) q,
             Stdout (''server received: '' @ END_MESSAGE @ [CHR 0x0A])], Returned)"
proof -
  have turns: "\<forall>p \<in> set ps. p \<noteq> [] \<and> length p < length buffer \<and> c_str p \<noteq> END_MESSAGE"
    using assms(1,2) by auto
  have q: "q \<noteq> []" "length q < length buffer"
    using assms(1,3,4) by (auto simp: c_str_END_MESSAGE_nonempty)
  show ?thesis
    using server_loop_turns [OF turns, of fd rest ss] server_loop_bytes [OF q, of fd rs ss] assms(1,4)
    by simp
qed

text \<open>A run of the loop: \<^verbatim>\<open>hello\<close>, acknowledged, then the sentinel.\<close>

theorem server_loop_sentinel_witness:
  "length stale_buffer = 64
   \<and> ''hello'' \<noteq> [] \<and> length ''hello'' \<le> 63 \<and> c_str ''hello'' \<noteq> END_MESSAGE
   \<and> length ''END_MESSAGE'' \<le> 63 \<and> c_str ''END_MESSAGE'' = END_MESSAGE
   \<and> server_loop 4 stale_buffer [RecvBytes ''hello'', RecvBytes ''END_MESSAGE''] [2] =
       ([Recv 4 63 5 ''hello'', Stdout (''server received: hello'' @ [CHR 0x0A]), Send 4 ''OK'' 2 2,
         Recv 4 63 11 ''END_MESSAGE'', Stdout (''server received: END_MESSAGE'' @ [CHR 0x0A])],
        Returned)"
proof -
  have h1: "length stale_buffer = 64" by (simp add: stale_buffer_def)
  have h2: "\<forall>p \<in> set [''hello'']. p \<noteq> [] \<and> length p \<le> 63 \<and> c_str p \<noteq> END_MESSAGE"
    by (simp add: c_str_def NUL_def END_MESSAGE_def)
  have h3: "length ''END_MESSAGE'' \<le> 63" by simp
  have h4: "c_str ''END_MESSAGE'' = END_MESSAGE" by (simp add: c_str_def NUL_def END_MESSAGE_def)
  have "server_loop 4 stale_buffer [RecvBytes ''hello'', RecvBytes ''END_MESSAGE''] [2] =
       ([Recv 4 63 5 ''hello'', Stdout (''server received: hello'' @ [CHR 0x0A]), Send 4 ''OK'' 2 2,
         Recv 4 63 11 ''END_MESSAGE'', Stdout (''server received: END_MESSAGE'' @ [CHR 0x0A])],
        Returned)"
    using server_loop_sentinel [OF h1 h2 h3 h4, of 4 "[RecvBytes ''END_MESSAGE'']" "[]" "[]"]
    by (simp add: c_str_def NUL_def END_MESSAGE_def)
  with h1 h2 h3 h4 show ?thesis by simp
qed

text \<open>
  C1 as it is written fails: a message of 13 bytes, \<^verbatim>\<open>END_MESSAGE\<close> followed by a
  zero byte and \<^verbatim>\<open>x\<close>, does not equal the sentinel, yet the loop sends no
  \<^verbatim>\<open>OK\<close> for it and does not receive again.
\<close>

theorem server_loop_sentinel_counterexample:
  "''END_MESSAGE'' @ [NUL, CHR ''x''] \<noteq> END_MESSAGE
   \<and> server_loop 4 stale_buffer
        [RecvBytes (''END_MESSAGE'' @ [NUL, CHR ''x'']), RecvBytes ''hello''] [2, 2] =
       ([Recv 4 63 13 (''END_MESSAGE'' @ [NUL, CHR ''x'']),
         Stdout (''server received: END_MESSAGE'' @ [CHR 0x0A])], Returned)"
  by (simp add: server_loop_bytes stale_buffer_def c_str_def NUL_def END_MESSAGE_def)

subsection \<open>C3: orderly shutdown and failed reads\<close>

text \<open>A \<^verbatim>\<open>recv\<close> that returned 0 or less is the last call of the loop, and its
  value decides how the loop ends.\<close>

lemma server_loop_recv_zero_or_failed:
  assumes "Recv fd' len n bs \<in> set (fst (server_loop fd buffer rs ss))" and "n \<le> 0"
  shows "last (fst (server_loop fd buffer rs ss)) = Recv fd' len n bs
       \<and> snd (server_loop fd buffer rs ss) = (if n = - 1 then Threw ''recv error'' else Returned)"
  using assms
proof (induction rs arbitrary: buffer ss)
  case Nil
  then show ?case by simp
next
  case (Cons r rs)
  show ?case
  proof (cases r)
    case RecvError
    then show ?thesis using Cons.prems by (auto simp: server_loop_failed)
  next
    case (RecvBytes p)
    show ?thesis
    proof (cases "p = []")
      case True
      then show ?thesis using RecvBytes Cons.prems by (auto simp: server_loop_closed)
    next
      case False
      note nonempty = this
      show ?thesis
      proof (cases "length buffer \<le> length p")
        case True
        then show ?thesis using RecvBytes nonempty Cons.prems by (auto simp: server_loop_overflow)
      next
        case False
        then have fit: "length p < length buffer" by simp
        let ?b = "(recv_store buffer p)[length p := NUL]"
        show ?thesis
        proof (cases "c_str p \<noteq> END_MESSAGE \<and> (\<exists>ss'. ss = 2 # ss')")
          case True
          then obtain ss' where ss: "ss = 2 # ss'" and ne: "c_str p \<noteq> END_MESSAGE" by blast
          have step: "server_loop fd buffer (r # rs) ss =
             (Recv fd (int (length buffer) - 1) (int (length p)) p #
              Stdout (''server received: '' @ c_str p @ [CHR 0x0A]) #
              Send fd ''OK'' 2 2 # fst (server_loop fd ?b rs ss'), snd (server_loop fd ?b rs ss'))"
            using RecvBytes nonempty fit ss ne by (simp add: server_loop_bytes)
          have mem: "Recv fd' len n bs \<in> set (fst (server_loop fd ?b rs ss'))"
            using Cons.prems nonempty unfolding step by auto
          then have ne': "fst (server_loop fd ?b rs ss') \<noteq> []" by auto
          show ?thesis
            using Cons.IH [OF mem Cons.prems(2)] ne' unfolding step by simp
        next
          case False
          then show ?thesis
            using RecvBytes nonempty fit Cons.prems
            by (auto simp: server_loop_bytes split: list.splits if_splits)
        qed
      qed
    qed
  qed
qed

text \<open>
  C3. At whatever turn of the server loop, a \<^verbatim>\<open>recv\<close> that returns 0 ends the loop
  with a normal return and no error, and a \<^verbatim>\<open>recv\<close> that fails (returns -1) ends it
  with the receive error. In every run of the loop, whatever the replies and the buffer:
  a \<^verbatim>\<open>recv\<close> that returned 0 is the last call and the loop returned normally; a
  \<^verbatim>\<open>recv\<close> that returned -1 is the last call and the loop threw the receive error.
\<close>

theorem server_loop_shutdown_is_not_an_error:
  "server_loop fd buffer (RecvBytes [] # rs) ss = ([Recv fd (int (length buffer) - 1) 0 []], Returned)
   \<and> server_loop fd buffer (RecvError # rs) ss =
       ([Recv fd (int (length buffer) - 1) (- 1) []], Threw ''recv error'')
   \<and> (Recv fd' len 0 bs \<in> set (fst (server_loop fd buffer rs ss)) \<longrightarrow>
        last (fst (server_loop fd buffer rs ss)) = Recv fd' len 0 bs
        \<and> snd (server_loop fd buffer rs ss) = Returned)
   \<and> (Recv fd' len (- 1) bs \<in> set (fst (server_loop fd buffer rs ss)) \<longrightarrow>
        last (fst (server_loop fd buffer rs ss)) = Recv fd' len (- 1) bs
        \<and> snd (server_loop fd buffer rs ss) = Threw ''recv error'')"
  using server_loop_recv_zero_or_failed [of fd' len 0 bs fd buffer rs ss]
    server_loop_recv_zero_or_failed [of fd' len "- 1" bs fd buffer rs ss]
  by (simp add: server_loop_closed server_loop_failed)

text \<open>Two runs: \<^verbatim>\<open>hello\<close> and then the peer closes; \<^verbatim>\<open>hello\<close> and then the
  read fails.\<close>

theorem server_loop_shutdown_is_not_an_error_witness:
  "Recv 4 63 0 [] \<in> set (fst (server_loop 4 stale_buffer [RecvBytes ''hello'', RecvBytes []] [2]))
   \<and> snd (server_loop 4 stale_buffer [RecvBytes ''hello'', RecvBytes []] [2]) = Returned
   \<and> Recv 4 63 (- 1) [] \<in> set (fst (server_loop 4 stale_buffer [RecvBytes ''hello'', RecvError] [2]))
   \<and> snd (server_loop 4 stale_buffer [RecvBytes ''hello'', RecvError] [2]) = Threw ''recv error''"
proof -
  have m0: "Recv 4 63 0 [] \<in> set (fst (server_loop 4 stale_buffer [RecvBytes ''hello'', RecvBytes []] [2]))"
    by (simp add: server_loop_bytes server_loop_closed stale_buffer_def length_recv_store c_str_def NUL_def END_MESSAGE_def)
  have m1: "Recv 4 63 (- 1) [] \<in> set (fst (server_loop 4 stale_buffer [RecvBytes ''hello'', RecvError] [2]))"
    by (simp add: server_loop_bytes server_loop_failed stale_buffer_def length_recv_store c_str_def NUL_def END_MESSAGE_def)
  show ?thesis
    using m0 m1
      server_loop_shutdown_is_not_an_error
        [of 4 stale_buffer "[RecvBytes ''hello'', RecvBytes []]" "[2]" 4 63 "[]"]
      server_loop_shutdown_is_not_an_error
        [of 4 stale_buffer "[RecvBytes ''hello'', RecvError]" "[2]" 4 63 "[]"]
    by simp
qed

subsection \<open>C4: what is compared with the sentinel\<close>

lemma server_loop_single:
  assumes "bs \<noteq> []" and "length bs < length buffer"
  shows "(snd (server_loop fd buffer [RecvBytes bs] ss) = Returned) = (c_str bs = END_MESSAGE)"
  using assms by (simp add: server_loop_bytes split: list.split)

text \<open>
  C4, as amended. After a receive of 1 to 63 bytes into the buffer of 64 the byte at
  index \<^verbatim>\<open>bytesRead\<close> is zero before the comparison, and the string compared with
  \<^verbatim>\<open>END_MESSAGE\<close> is made of the received bytes only: it is the received bytes before
  their first zero byte, so the loop stops on the message exactly when those equal the
  sentinel. For a message with no zero byte that is a comparison of exactly the received
  bytes. What the buffer held before has no effect on any run of the loop, and no
  comparison is over the size of the buffer.
\<close>

theorem received_bytes_compared:
  assumes "length buffer = 64" and "bs \<noteq> []" and "length bs \<le> 63"
  shows "(recv_store buffer bs)[length bs := NUL] ! length bs = NUL
       \<and> c_str ((recv_store buffer bs)[length bs := NUL]) = c_str bs
       \<and> (snd (server_loop fd buffer [RecvBytes bs] ss) = Returned) = (c_str bs = END_MESSAGE)
       \<and> (NUL \<notin> set bs \<longrightarrow>
            (snd (server_loop fd buffer [RecvBytes bs] ss) = Returned) = (bs = END_MESSAGE))
       \<and> (length stale = 64 \<longrightarrow> server_loop fd stale rs ss' = server_loop fd buffer rs ss')"
proof -
  have fit: "length bs < length buffer"
    using assms(1,3) by simp
  have same: "length stale = 64 \<longrightarrow> server_loop fd stale rs ss' = server_loop fd buffer rs ss'"
    using assms(1) server_loop_same_length [of stale buffer fd rs ss'] by simp
  show ?thesis
    using nth_terminated [OF fit] c_str_terminated [OF fit]
      server_loop_single [OF assms(2) fit, of fd ss] c_str_no_NUL [of bs] same
    by simp
qed

theorem received_bytes_compared_witness:
  "length stale_buffer = 64 \<and> ''hello'' \<noteq> [] \<and> length ''hello'' \<le> 63
   \<and> (recv_store stale_buffer ''hello'')[length ''hello'' := NUL] ! length ''hello'' = NUL
   \<and> c_str ((recv_store stale_buffer ''hello'')[length ''hello'' := NUL]) = ''hello''
   \<and> snd (server_loop 4 stale_buffer [RecvBytes ''hello''] [2]) \<noteq> Returned
   \<and> server_loop 4 (replicate 64 (CHR ''E'')) [RecvBytes ''hello''] [2]
       = server_loop 4 stale_buffer [RecvBytes ''hello''] [2]"
proof -
  have h1: "length stale_buffer = 64" by (simp add: stale_buffer_def)
  have h2: "''hello'' \<noteq> []" by simp
  have h3: "length ''hello'' \<le> 63" by simp
  have c: "c_str ''hello'' = ''hello''" "''hello'' \<noteq> END_MESSAGE"
    by (simp_all add: c_str_def NUL_def END_MESSAGE_def)
  show ?thesis
    using h1 c received_bytes_compared [OF h1 h2 h3, of 4 "[2]" "replicate 64 (CHR ''E'')" "[RecvBytes ''hello'']" "[2]"]
    by (simp del: length_Cons list_update_code)
qed

text \<open>
  C4 as it is written fails: the comparison is not over the received length. The 12
  received bytes \<^verbatim>\<open>END_MESSAGE\<close> and a zero byte (the sentinel sent with its
  terminator) compare equal to the 11 bytes of the sentinel, and the loop stops.
\<close>

theorem received_bytes_compared_counterexample:
  "length (''END_MESSAGE'' @ [NUL]) = 12 \<and> length END_MESSAGE = 11
   \<and> c_str ((recv_store stale_buffer (''END_MESSAGE'' @ [NUL]))
              [length (''END_MESSAGE'' @ [NUL]) := NUL]) = END_MESSAGE
   \<and> snd (server_loop 4 stale_buffer [RecvBytes (''END_MESSAGE'' @ [NUL])] [2]) = Returned"
proof -
  have fit: "length (''END_MESSAGE'' @ [NUL]) < length stale_buffer"
    by (simp add: stale_buffer_def)
  have c: "c_str (''END_MESSAGE'' @ [NUL]) = END_MESSAGE"
    by (simp add: c_str_def NUL_def END_MESSAGE_def)
  have "snd (server_loop 4 stale_buffer [RecvBytes (''END_MESSAGE'' @ [NUL])] [2]) = Returned"
    using fit c by (simp add: server_loop_bytes del: length_Cons)
  then show ?thesis
    using c_str_terminated [OF fit] c by (simp add: END_MESSAGE_def)
qed

subsection \<open>The client after \<^verbatim>\<open>connect\<close>\<close>

lemma client_exchange_bytes:
  assumes "length bs < length buffer"
  shows "client_exchange fd buffer (RecvBytes bs # rs) (5 # w2 # ss) =
     ([Send fd ''hello'' 5 5,
       Recv fd (int (length buffer) - 1) (int (length bs)) bs,
       Stdout (''client received: '' @ c_str bs @ [CHR 0x0A]),
       Send fd ''END_MESSAGE'' 11 w2],
      if w2 \<noteq> 11 then Threw ''send error'' else Returned)"
  using assms by (simp add: client_exchange_def Let_def c_str_terminated END_MESSAGE_def)

lemma client_exchange_failed:
  "client_exchange fd buffer (RecvError # rs) (5 # ss) =
     ([Send fd ''hello'' 5 5, Recv fd (int (length buffer) - 1) (- 1) []], Threw ''recv error'')"
  by (simp add: client_exchange_def Let_def)

lemma client_exchange_overflow:
  assumes "length buffer \<le> length bs"
  shows "snd (client_exchange fd buffer (RecvBytes bs # rs) (5 # ss)) = Undefined"
  using assms by (simp add: client_exchange_def Let_def)

lemma client_body_connected:
  assumes "getaddrinfo_status env = 0" and "getaddrinfo_res env = a # as"
    and "socket_ret env \<noteq> - 1" and "connect_ret env \<noteq> - 1"
  shows "client_body env buffer =
     (\<lparr> res = a # as, socketFd = socket_ret env, clientFd = - 1 \<rparr>,
      [GetAddrInfo PORT_TEST 0 (a # as), PrintAddrInfo (a # as),
       Socket (ai_family a) (ai_socktype a) (ai_protocol a) (socket_ret env),
       Connect (socket_ret env) (ai_addr a) (int (ai_addrlen a)) (connect_ret env)]
        @ fst (client_exchange (socket_ret env) buffer (recv_replies env) (send_rets env)),
      snd (client_exchange (socket_ret env) buffer (recv_replies env) (send_rets env)))"
  using assms
  by (simp add: client_body_def RAIIRawSocketInfos_ctor_def Let_def split: prod.split)

subsection \<open>C2: the client's fixed sequence\<close>

text \<open>
  C2. Once the client is connected (the lookup, \<^verbatim>\<open>socket\<close> and \<^verbatim>\<open>connect\<close>
  succeeded) and its two sends are taken in full, its calls are exactly: send the 5 bytes
  \<^verbatim>\<open>hello\<close>, receive at most 63 bytes, send the 11 bytes \<^verbatim>\<open>END_MESSAGE\<close>, and
  then only the releases, with no further receive; it returns normally whatever bytes
  \<open>ack\<close> the receive delivered and whatever replies \<open>rs\<close> would have followed.
\<close>

theorem setup_client_fixed_sequence:
  assumes "length buffer = 64"
    and "getaddrinfo_status env = 0" and "getaddrinfo_res env = a # as"
    and "socket_ret env \<noteq> - 1" and "connect_ret env \<noteq> - 1"
    and "send_rets env = 5 # 11 # ss"
    and "recv_replies env = RecvBytes ack # rs" and "length ack \<le> 63"
  shows "setup_client env buffer =
     ([GetAddrInfo PORT_TEST 0 (a # as), PrintAddrInfo (a # as),
       Socket (ai_family a) (ai_socktype a) (ai_protocol a) (socket_ret env),
       Connect (socket_ret env) (ai_addr a) (int (ai_addrlen a)) (connect_ret env),
       Send (socket_ret env) ''hello'' 5 5,
       Recv (socket_ret env) 63 (int (length ack)) ack,
       Stdout (''client received: '' @ c_str ack @ [CHR 0x0A]),
       Send (socket_ret env) ''END_MESSAGE'' 11 11,
       CloseSocket (socket_ret env), FreeAddrInfo (a # as)],
      Returned)"
proof -
  have fit: "length ack < length buffer"
    using assms(1,8) by simp
  show ?thesis
    using assms(1,4,6,7)
    by (simp add: setup_client_def client_body_connected [OF assms(2-5)]
        client_exchange_bytes [OF fit] RAIIRawSocketInfos_dtor_def)
qed

text \<open>A run in which the acknowledgement is not \<^verbatim>\<open>OK\<close>.\<close>

theorem setup_client_fixed_sequence_witness:
  "length stale_buffer = 64
   \<and> setup_client (sample_os \<lparr> recv_replies := [RecvBytes ''KO''], send_rets := [5, 11] \<rparr>) stale_buffer =
     ([GetAddrInfo ''20453'' 0 [sample_addrinfo], PrintAddrInfo [sample_addrinfo],
       Socket 2 1 6 3, Connect 3 [127, 0, 0, 1] 16 0,
       Send 3 ''hello'' 5 5, Recv 3 63 2 ''KO'', Stdout (''client received: KO'' @ [CHR 0x0A]),
       Send 3 ''END_MESSAGE'' 11 11, CloseSocket 3, FreeAddrInfo [sample_addrinfo]],
      Returned)"
proof -
  have h1: "length stale_buffer = 64" by (simp add: stale_buffer_def)
  show ?thesis
    using h1 setup_client_fixed_sequence [OF h1,
        of "sample_os \<lparr> recv_replies := [RecvBytes ''KO''], send_rets := [5, 11] \<rparr>"
           sample_addrinfo "[]" "[]" "''KO''" "[]"]
    by (simp add: sample_os_def sample_addrinfo_def PORT_TEST_def c_str_def NUL_def)
qed

subsection \<open>C10: the client when the server has closed\<close>

text \<open>
  C10. Once the client is connected and its sends are taken in full: if its receive
  returns 0 it writes the zero byte at index 0 of the buffer, prints the empty string,
  still sends \<^verbatim>\<open>END_MESSAGE\<close> and returns normally; if its receive fails (returns
  -1) it throws the receive error without sending \<^verbatim>\<open>END_MESSAGE\<close>; and the client
  ends with an error only when the receive failed.
\<close>

theorem setup_client_peer_closed:
  assumes "length buffer = 64"
    and "getaddrinfo_status env = 0" and "getaddrinfo_res env = a # as"
    and "socket_ret env \<noteq> - 1" and "connect_ret env \<noteq> - 1"
    and "send_rets env = 5 # 11 # ss"
  shows "(recv_replies env = RecvBytes [] # rs \<longrightarrow>
            (recv_store buffer [])[0 := NUL] ! 0 = NUL
          \<and> setup_client env buffer =
             ([GetAddrInfo PORT_TEST 0 (a # as), PrintAddrInfo (a # as),
               Socket (ai_family a) (ai_socktype a) (ai_protocol a) (socket_ret env),
               Connect (socket_ret env) (ai_addr a) (int (ai_addrlen a)) (connect_ret env),
               Send (socket_ret env) ''hello'' 5 5,
               Recv (socket_ret env) 63 0 [],
               Stdout (''client received: '' @ [CHR 0x0A]),
               Send (socket_ret env) ''END_MESSAGE'' 11 11,
               CloseSocket (socket_ret env), FreeAddrInfo (a # as)],
              Returned))
       \<and> (recv_replies env = RecvError # rs \<longrightarrow>
            setup_client env buffer =
             ([GetAddrInfo PORT_TEST 0 (a # as), PrintAddrInfo (a # as),
               Socket (ai_family a) (ai_socktype a) (ai_protocol a) (socket_ret env),
               Connect (socket_ret env) (ai_addr a) (int (ai_addrlen a)) (connect_ret env),
               Send (socket_ret env) ''hello'' 5 5,
               Recv (socket_ret env) 63 (- 1) [],
               CloseSocket (socket_ret env), FreeAddrInfo (a # as)],
              Threw ''recv error''))
       \<and> (recv_replies env = r # rs \<longrightarrow>
            (\<exists>m. snd (setup_client env buffer) = Threw m) = (r = RecvError))"
proof -
  have closed: "length [] < length buffer"
    using assms(1) by simp
  have only: "(\<exists>m. snd (setup_client env buffer) = Threw m) = (r = RecvError)"
    if r: "recv_replies env = r # rs"
  proof (cases r)
    case RecvError
    then show ?thesis
      using r assms(4,6)
      by (simp add: setup_client_def client_body_connected [OF assms(2-5)] client_exchange_failed)
  next
    case (RecvBytes bs)
    show ?thesis
    proof (cases "length bs < length buffer")
      case True
      then show ?thesis
        using r RecvBytes assms(4,6)
        by (simp add: setup_client_def client_body_connected [OF assms(2-5)] client_exchange_bytes)
    next
      case False
      then have "snd (client_exchange (socket_ret env) buffer (recv_replies env) (send_rets env)) = Undefined"
        using r RecvBytes assms(6) by (simp add: client_exchange_overflow)
      then show ?thesis
        using RecvBytes
        by (cases "client_exchange (socket_ret env) buffer (recv_replies env) (send_rets env)")
           (simp add: setup_client_def client_body_connected [OF assms(2-5)])
    qed
  qed
  show ?thesis
    using assms(1,4,6) only nth_terminated [OF closed]
    by (simp add: setup_client_def client_body_connected [OF assms(2-5)]
        client_exchange_bytes [OF closed] client_exchange_failed RAIIRawSocketInfos_dtor_def c_str_def)
qed

theorem setup_client_peer_closed_witness:
  "length stale_buffer = 64
   \<and> setup_client (sample_os \<lparr> recv_replies := [RecvBytes []], send_rets := [5, 11] \<rparr>) stale_buffer =
     ([GetAddrInfo ''20453'' 0 [sample_addrinfo], PrintAddrInfo [sample_addrinfo],
       Socket 2 1 6 3, Connect 3 [127, 0, 0, 1] 16 0,
       Send 3 ''hello'' 5 5, Recv 3 63 0 [], Stdout (''client received: '' @ [CHR 0x0A]),
       Send 3 ''END_MESSAGE'' 11 11, CloseSocket 3, FreeAddrInfo [sample_addrinfo]],
      Returned)
   \<and> setup_client (sample_os \<lparr> recv_replies := [RecvError], send_rets := [5, 11] \<rparr>) stale_buffer =
     ([GetAddrInfo ''20453'' 0 [sample_addrinfo], PrintAddrInfo [sample_addrinfo],
       Socket 2 1 6 3, Connect 3 [127, 0, 0, 1] 16 0,
       Send 3 ''hello'' 5 5, Recv 3 63 (- 1) [], CloseSocket 3, FreeAddrInfo [sample_addrinfo]],
      Threw ''recv error'')"
proof -
  let ?closed = "sample_os \<lparr> recv_replies := [RecvBytes []], send_rets := [5, 11] \<rparr>"
  let ?failed = "sample_os \<lparr> recv_replies := [RecvError], send_rets := [5, 11] \<rparr>"
  have h1: "length stale_buffer = 64" by (simp add: stale_buffer_def)
  have c: "getaddrinfo_status ?closed = 0" "getaddrinfo_res ?closed = [sample_addrinfo]"
    "socket_ret ?closed \<noteq> - 1" "connect_ret ?closed \<noteq> - 1" "send_rets ?closed = [5, 11]"
    "recv_replies ?closed = [RecvBytes []]" "socket_ret ?closed = 3" "connect_ret ?closed = 0"
    by (simp_all add: sample_os_def)
  have f: "getaddrinfo_status ?failed = 0" "getaddrinfo_res ?failed = [sample_addrinfo]"
    "socket_ret ?failed \<noteq> - 1" "connect_ret ?failed \<noteq> - 1" "send_rets ?failed = [5, 11]"
    "recv_replies ?failed = [RecvError]" "socket_ret ?failed = 3" "connect_ret ?failed = 0"
    by (simp_all add: sample_os_def)
  have a: "ai_family sample_addrinfo = 2" "ai_socktype sample_addrinfo = 1"
    "ai_protocol sample_addrinfo = 6" "ai_addr sample_addrinfo = [127, 0, 0, 1]"
    "int (ai_addrlen sample_addrinfo) = 16"
    by (simp_all add: sample_addrinfo_def)
  note closed = setup_client_peer_closed [OF h1 c(1) c(2) c(3) c(4) c(5), of "[]" "RecvBytes []"]
  note failed = setup_client_peer_closed [OF h1 f(1) f(2) f(3) f(4) f(5), of "[]" "RecvError"]
  have "setup_client ?closed stale_buffer =
     ([GetAddrInfo ''20453'' 0 [sample_addrinfo], PrintAddrInfo [sample_addrinfo],
       Socket 2 1 6 3, Connect 3 [127, 0, 0, 1] 16 0,
       Send 3 ''hello'' 5 5, Recv 3 63 0 [], Stdout (''client received: '' @ [CHR 0x0A]),
       Send 3 ''END_MESSAGE'' 11 11, CloseSocket 3, FreeAddrInfo [sample_addrinfo]],
      Returned)"
    using closed c(6) unfolding c(7) c(8) a PORT_TEST_def by simp
  moreover have "setup_client ?failed stale_buffer =
     ([GetAddrInfo ''20453'' 0 [sample_addrinfo], PrintAddrInfo [sample_addrinfo],
       Socket 2 1 6 3, Connect 3 [127, 0, 0, 1] 16 0,
       Send 3 ''hello'' 5 5, Recv 3 63 (- 1) [], CloseSocket 3, FreeAddrInfo [sample_addrinfo]],
      Threw ''recv error'')"
    using failed f(6) unfolding f(7) f(8) a PORT_TEST_def by simp
  ultimately show ?thesis using h1 by simp
qed

subsection \<open>What the exchange can and cannot do\<close>

lemma server_loop_exchange_only':
  "server_loop fd buffer rs ss = (tr, oc) \<Longrightarrow> list_all is_exchange tr"
proof (induction rs arbitrary: buffer ss tr oc)
  case Nil
  then show ?case by auto
next
  case (Cons r rs)
  then show ?case
    by (auto simp: server_loop.simps(2) Let_def split: list.splits prod.splits if_splits)
qed

lemma server_loop_exchange_only: "list_all is_exchange (fst (server_loop fd buffer rs ss))"
  using server_loop_exchange_only' [of fd buffer rs ss] by (cases "server_loop fd buffer rs ss") simp

lemma client_exchange_only: "list_all is_exchange (fst (client_exchange fd buffer rs ss))"
  by (simp add: client_exchange_def Let_def split: list.split)

lemma track_exchange: "list_all is_exchange tr \<Longrightarrow> track held (tr @ tr') = track held tr'"
proof (induction tr)
  case Nil
  then show ?case by simp
next
  case (Cons e tr)
  then show ?case by (cases e) simp_all
qed

lemma closed_fds_exchange: "list_all is_exchange tr \<Longrightarrow> closed_fds (tr @ tr') = closed_fds tr'"
proof (induction tr)
  case Nil
  then show ?case by simp
next
  case (Cons e tr)
  then show ?case by (cases e) simp_all
qed

lemma server_loop_throws':
  "server_loop fd buffer rs ss = (tr, Threw m) \<Longrightarrow> m = ''send error'' \<or> m = ''recv error''"
proof (induction rs arbitrary: buffer ss tr)
  case Nil
  then show ?case by auto
next
  case (Cons r rs)
  then show ?case
    by (auto simp: server_loop.simps(2) Let_def split: list.splits prod.splits if_splits)
qed

lemma server_loop_throws:
  "snd (server_loop fd buffer rs ss) = Threw m \<Longrightarrow> m = ''send error'' \<or> m = ''recv error''"
  using server_loop_throws' [of fd buffer rs ss _ m] by (cases "server_loop fd buffer rs ss") simp

lemma client_exchange_throws:
  "snd (client_exchange fd buffer rs ss) = Threw m \<Longrightarrow> m = ''send error'' \<or> m = ''recv error''"
  by (auto simp: client_exchange_def Let_def split: list.splits if_splits)

subsection \<open>The paths through the two procedures\<close>

lemma dtor_events:
  "snd (RAIIRawSocketInfos_dtor \<lparr> res = l, socketFd = fd, clientFd = c \<rparr>) =
     (if c \<noteq> - 1 then [CloseSocket c] else []) @
     (if fd \<noteq> - 1 then [CloseSocket fd] else []) @
     (if l \<noteq> [] then [FreeAddrInfo l] else [])"
  by (simp add: RAIIRawSocketInfos_dtor_def)

lemma setup_server_lookup_failed:
  assumes "getaddrinfo_status env \<noteq> 0"
  shows "setup_server env buffer =
     (GetAddrInfo PORT_TEST (getaddrinfo_status env) (getaddrinfo_res env) #
        (if getaddrinfo_res env \<noteq> [] then [FreeAddrInfo (getaddrinfo_res env)] else []),
      Threw ''getaddrinfo error'')"
  using assms
  by (simp add: setup_server_def server_body_def RAIIRawSocketInfos_ctor_def dtor_events Let_def)

lemma setup_server_null:
  assumes "getaddrinfo_status env = 0" and "getaddrinfo_res env = []"
  shows "setup_server env buffer = ([GetAddrInfo PORT_TEST 0 [], PrintAddrInfo []], Undefined)"
  using assms
  by (simp add: setup_server_def server_body_def RAIIRawSocketInfos_ctor_def Let_def)

lemma setup_server_socket_failed:
  assumes "getaddrinfo_status env = 0" and "getaddrinfo_res env = a # as"
    and "socket_ret env = - 1"
  shows "setup_server env buffer =
     ([GetAddrInfo PORT_TEST 0 (a # as), PrintAddrInfo (a # as),
       Socket (ai_family a) (ai_socktype a) (ai_protocol a) (- 1),
       FreeAddrInfo (a # as)],
      Threw ''socket error'')"
  using assms
  by (simp add: setup_server_def server_body_def RAIIRawSocketInfos_ctor_def dtor_events Let_def)

lemma setup_server_bind_failed:
  assumes "getaddrinfo_status env = 0" and "getaddrinfo_res env = a # as"
    and "socket_ret env \<noteq> - 1" and "bind_ret env = - 1"
  shows "setup_server env buffer =
     ([GetAddrInfo PORT_TEST 0 (a # as), PrintAddrInfo (a # as),
       Socket (ai_family a) (ai_socktype a) (ai_protocol a) (socket_ret env),
       Bind (socket_ret env) (ai_addr a) (int (ai_addrlen a)) (- 1),
       CloseSocket (socket_ret env), FreeAddrInfo (a # as)],
      Threw ''bind error'')"
  using assms
  by (simp add: setup_server_def server_body_def RAIIRawSocketInfos_ctor_def dtor_events Let_def)

lemma setup_server_listen_failed:
  assumes "getaddrinfo_status env = 0" and "getaddrinfo_res env = a # as"
    and "socket_ret env \<noteq> - 1" and "bind_ret env \<noteq> - 1" and "listen_ret env = - 1"
  shows "setup_server env buffer =
     ([GetAddrInfo PORT_TEST 0 (a # as), PrintAddrInfo (a # as),
       Socket (ai_family a) (ai_socktype a) (ai_protocol a) (socket_ret env),
       Bind (socket_ret env) (ai_addr a) (int (ai_addrlen a)) (bind_ret env),
       Listen (socket_ret env) 2 (- 1),
       CloseSocket (socket_ret env), FreeAddrInfo (a # as)],
      Threw ''listen error'')"
  using assms
  by (simp add: setup_server_def server_body_def RAIIRawSocketInfos_ctor_def dtor_events Let_def)

lemma setup_server_accept_failed:
  assumes "getaddrinfo_status env = 0" and "getaddrinfo_res env = a # as"
    and "socket_ret env \<noteq> - 1" and "bind_ret env \<noteq> - 1" and "listen_ret env \<noteq> - 1"
    and "accept_ret env = - 1"
  shows "setup_server env buffer =
     ([GetAddrInfo PORT_TEST 0 (a # as), PrintAddrInfo (a # as),
       Socket (ai_family a) (ai_socktype a) (ai_protocol a) (socket_ret env),
       Bind (socket_ret env) (ai_addr a) (int (ai_addrlen a)) (bind_ret env),
       Listen (socket_ret env) 2 (listen_ret env),
       Accept (socket_ret env) (- 1),
       CloseSocket (socket_ret env), FreeAddrInfo (a # as)],
      Threw ''client error'')"
  using assms
  by (simp add: setup_server_def server_body_def RAIIRawSocketInfos_ctor_def dtor_events Let_def)

lemma setup_server_accepted:
  assumes "getaddrinfo_status env = 0" and "getaddrinfo_res env = a # as"
    and "socket_ret env \<noteq> - 1" and "bind_ret env \<noteq> - 1" and "listen_ret env \<noteq> - 1"
    and "accept_ret env \<noteq> - 1"
  shows "setup_server env buffer =
     leave_scope
       (\<lparr> res = a # as, socketFd = socket_ret env, clientFd = accept_ret env \<rparr>,
        [GetAddrInfo PORT_TEST 0 (a # as), PrintAddrInfo (a # as),
         Socket (ai_family a) (ai_socktype a) (ai_protocol a) (socket_ret env),
         Bind (socket_ret env) (ai_addr a) (int (ai_addrlen a)) (bind_ret env),
         Listen (socket_ret env) 2 (listen_ret env),
         Accept (socket_ret env) (accept_ret env)]
          @ fst (server_loop (accept_ret env) buffer (recv_replies env) (send_rets env)),
        snd (server_loop (accept_ret env) buffer (recv_replies env) (send_rets env)))"
  using assms
  by (simp add: setup_server_def server_body_def RAIIRawSocketInfos_ctor_def Let_def split: prod.split)

lemma server_paths:
  obtains (lookup_failed) "getaddrinfo_status env \<noteq> 0"
  | (null) "getaddrinfo_status env = 0" "getaddrinfo_res env = []"
  | (socket_failed) a as where "getaddrinfo_status env = 0" "getaddrinfo_res env = a # as"
      "socket_ret env = - 1"
  | (bind_failed) a as where "getaddrinfo_status env = 0" "getaddrinfo_res env = a # as"
      "socket_ret env \<noteq> - 1" "bind_ret env = - 1"
  | (listen_failed) a as where "getaddrinfo_status env = 0" "getaddrinfo_res env = a # as"
      "socket_ret env \<noteq> - 1" "bind_ret env \<noteq> - 1" "listen_ret env = - 1"
  | (accept_failed) a as where "getaddrinfo_status env = 0" "getaddrinfo_res env = a # as"
      "socket_ret env \<noteq> - 1" "bind_ret env \<noteq> - 1" "listen_ret env \<noteq> - 1"
      "accept_ret env = - 1"
  | (accepted) a as where "getaddrinfo_status env = 0" "getaddrinfo_res env = a # as"
      "socket_ret env \<noteq> - 1" "bind_ret env \<noteq> - 1" "listen_ret env \<noteq> - 1"
      "accept_ret env \<noteq> - 1"
  by (cases "getaddrinfo_res env") blast+

lemma setup_client_lookup_failed:
  assumes "getaddrinfo_status env \<noteq> 0"
  shows "setup_client env buffer =
     (GetAddrInfo PORT_TEST (getaddrinfo_status env) (getaddrinfo_res env) #
        (if getaddrinfo_res env \<noteq> [] then [FreeAddrInfo (getaddrinfo_res env)] else []),
      Threw ''getaddrinfo error'')"
  using assms
  by (simp add: setup_client_def client_body_def RAIIRawSocketInfos_ctor_def dtor_events Let_def)

lemma setup_client_null:
  assumes "getaddrinfo_status env = 0" and "getaddrinfo_res env = []"
  shows "setup_client env buffer = ([GetAddrInfo PORT_TEST 0 [], PrintAddrInfo []], Undefined)"
  using assms
  by (simp add: setup_client_def client_body_def RAIIRawSocketInfos_ctor_def Let_def)

lemma setup_client_socket_failed:
  assumes "getaddrinfo_status env = 0" and "getaddrinfo_res env = a # as"
    and "socket_ret env = - 1"
  shows "setup_client env buffer =
     ([GetAddrInfo PORT_TEST 0 (a # as), PrintAddrInfo (a # as),
       Socket (ai_family a) (ai_socktype a) (ai_protocol a) (- 1),
       FreeAddrInfo (a # as)],
      Threw ''socket error'')"
  using assms
  by (simp add: setup_client_def client_body_def RAIIRawSocketInfos_ctor_def dtor_events Let_def)

lemma setup_client_connect_failed:
  assumes "getaddrinfo_status env = 0" and "getaddrinfo_res env = a # as"
    and "socket_ret env \<noteq> - 1" and "connect_ret env = - 1"
  shows "setup_client env buffer =
     ([GetAddrInfo PORT_TEST 0 (a # as), PrintAddrInfo (a # as),
       Socket (ai_family a) (ai_socktype a) (ai_protocol a) (socket_ret env),
       Connect (socket_ret env) (ai_addr a) (int (ai_addrlen a)) (- 1),
       CloseSocket (socket_ret env), FreeAddrInfo (a # as)],
      Threw ''connect error'')"
  using assms
  by (simp add: setup_client_def client_body_def RAIIRawSocketInfos_ctor_def dtor_events Let_def)

lemma setup_client_connected:
  assumes "getaddrinfo_status env = 0" and "getaddrinfo_res env = a # as"
    and "socket_ret env \<noteq> - 1" and "connect_ret env \<noteq> - 1"
  shows "setup_client env buffer =
     leave_scope
       (\<lparr> res = a # as, socketFd = socket_ret env, clientFd = - 1 \<rparr>,
        [GetAddrInfo PORT_TEST 0 (a # as), PrintAddrInfo (a # as),
         Socket (ai_family a) (ai_socktype a) (ai_protocol a) (socket_ret env),
         Connect (socket_ret env) (ai_addr a) (int (ai_addrlen a)) (connect_ret env)]
          @ fst (client_exchange (socket_ret env) buffer (recv_replies env) (send_rets env)),
        snd (client_exchange (socket_ret env) buffer (recv_replies env) (send_rets env)))"
  using assms by (simp add: setup_client_def client_body_connected)

lemma client_paths:
  obtains (lookup_failed) "getaddrinfo_status env \<noteq> 0"
  | (null) "getaddrinfo_status env = 0" "getaddrinfo_res env = []"
  | (socket_failed) a as where "getaddrinfo_status env = 0" "getaddrinfo_res env = a # as"
      "socket_ret env = - 1"
  | (connect_failed) a as where "getaddrinfo_status env = 0" "getaddrinfo_res env = a # as"
      "socket_ret env \<noteq> - 1" "connect_ret env = - 1"
  | (connected) a as where "getaddrinfo_status env = 0" "getaddrinfo_res env = a # as"
      "socket_ret env \<noteq> - 1" "connect_ret env \<noteq> - 1"
  by (cases "getaddrinfo_res env") blast+

subsection \<open>Leaving the scope\<close>

lemma leave_scope_outcome: "snd (leave_scope (s, tr, oc)) = oc"
  by (cases oc) simp_all

lemma leave_scope_trace:
  "fst (leave_scope (s, tr, oc)) =
     (if oc = Blocked \<or> oc = Undefined then tr else tr @ snd (RAIIRawSocketInfos_dtor s))"
  by (cases oc) simp_all

subsection \<open>C6: a short write is fatal\<close>

lemma sends_checked_releases: "list_all is_release tr \<Longrightarrow> sends_checked allowed oc tr"
proof (induction tr)
  case Nil
  then show ?case by simp
next
  case (Cons e tr)
  then show ?case by (cases e) simp_all
qed

lemma sends_checked_at:
  assumes "sends_checked allowed oc (pre @ Send fd payload len ret # post)"
  shows "payload \<in> set allowed \<and> len = int (length payload)
       \<and> (ret \<noteq> len \<longrightarrow> oc = Threw ''send error'' \<and> list_all is_release post)"
  using assms
proof (induction pre)
  case Nil
  then show ?case by (simp split: if_splits)
next
  case (Cons e pre)
  then show ?case by (cases e) (simp_all split: if_splits)
qed

lemma dtor_releases: "list_all is_release (snd (RAIIRawSocketInfos_dtor s))"
  by (simp add: RAIIRawSocketInfos_dtor_def)

lemma server_loop_sends_checked':
  assumes "server_loop fd buffer rs ss = (tr, oc)" and "list_all is_release d"
  shows "sends_checked [''OK''] oc (tr @ d)"
  using assms
proof (induction rs arbitrary: buffer ss tr oc)
  case Nil
  then show ?case by (auto simp: sends_checked_releases)
next
  case (Cons r rs)
  then show ?case
    by (auto simp: server_loop.simps(2) Let_def sends_checked_releases
        split: list.splits prod.splits if_splits)
qed

lemma server_loop_sends_checked:
  "list_all is_release d \<Longrightarrow>
   sends_checked [''OK''] (snd (server_loop fd buffer rs ss)) (fst (server_loop fd buffer rs ss) @ d)"
  using server_loop_sends_checked' [of fd buffer rs ss] by (cases "server_loop fd buffer rs ss") simp

lemma client_exchange_sends_checked:
  "list_all is_release d \<Longrightarrow>
   sends_checked [''hello'', ''END_MESSAGE''] (snd (client_exchange fd buffer rs ss))
     (fst (client_exchange fd buffer rs ss) @ d)"
  by (simp add: client_exchange_def Let_def END_MESSAGE_def sends_checked_releases split: list.split)

lemma leave_scope_sends_checked:
  assumes "\<And>d. list_all is_release d \<Longrightarrow> sends_checked allowed oc (tr @ d)"
  shows "sends_checked allowed (snd (leave_scope (s, tr, oc))) (fst (leave_scope (s, tr, oc)))"
  using assms [of "snd (RAIIRawSocketInfos_dtor s)"] assms [of "[]"]
  by (cases oc) (simp_all add: dtor_releases)

lemma setup_server_sends_checked:
  "sends_checked [''OK''] (snd (setup_server env buffer)) (fst (setup_server env buffer))"
proof (cases rule: server_paths [of env])
  case lookup_failed
  then show ?thesis by (simp add: setup_server_lookup_failed)
next
  case null
  then show ?thesis by (simp add: setup_server_null)
next
  case (socket_failed a as)
  then show ?thesis by (simp add: setup_server_socket_failed)
next
  case (bind_failed a as)
  then show ?thesis by (simp add: setup_server_bind_failed)
next
  case (listen_failed a as)
  then show ?thesis by (simp add: setup_server_listen_failed)
next
  case (accept_failed a as)
  then show ?thesis by (simp add: setup_server_accept_failed)
next
  case (accepted a as)
  show ?thesis
    unfolding setup_server_accepted [OF accepted]
    by (rule leave_scope_sends_checked) (simp add: server_loop_sends_checked)
qed

lemma setup_client_sends_checked:
  "sends_checked [''hello'', ''END_MESSAGE''] (snd (setup_client env buffer)) (fst (setup_client env buffer))"
proof (cases rule: client_paths [of env])
  case lookup_failed
  then show ?thesis by (simp add: setup_client_lookup_failed)
next
  case null
  then show ?thesis by (simp add: setup_client_null)
next
  case (socket_failed a as)
  then show ?thesis by (simp add: setup_client_socket_failed)
next
  case (connect_failed a as)
  then show ?thesis by (simp add: setup_client_connect_failed)
next
  case (connected a as)
  show ?thesis
    unfolding setup_client_connected [OF connected]
    by (rule leave_scope_sends_checked) (simp add: client_exchange_sends_checked)
qed

text \<open>
  C6. In every run of the server and of the client, every \<^verbatim>\<open>send\<close> is asked for
  the whole payload (the 2 bytes \<^verbatim>\<open>OK\<close> in the server; the 5 bytes \<^verbatim>\<open>hello\<close> or
  the 11 bytes \<^verbatim>\<open>END_MESSAGE\<close> in the client), and its return value is compared
  with that length: when they differ the procedure throws the send error, and what
  follows the \<^verbatim>\<open>send\<close> in the run is releases only, so nothing is sent again.
\<close>

theorem sends_fail_fast:
  "(fst (setup_server env buffer) = pre @ Send fd payload len ret # post \<longrightarrow>
      payload = ''OK'' \<and> len = 2
      \<and> (ret \<noteq> len \<longrightarrow>
           snd (setup_server env buffer) = Threw ''send error'' \<and> list_all is_release post))
   \<and> (fst (setup_client env buffer) = pre @ Send fd payload len ret # post \<longrightarrow>
      (payload = ''hello'' \<and> len = 5 \<or> payload = ''END_MESSAGE'' \<and> len = 11)
      \<and> (ret \<noteq> len \<longrightarrow>
           snd (setup_client env buffer) = Threw ''send error'' \<and> list_all is_release post))"
proof (intro conjI impI)
  assume tr: "fst (setup_server env buffer) = pre @ Send fd payload len ret # post"
  have "sends_checked [''OK''] (snd (setup_server env buffer)) (pre @ Send fd payload len ret # post)"
    using setup_server_sends_checked [of env buffer] unfolding tr .
  from sends_checked_at [OF this]
  show "payload = ''OK''" and "len = 2"
    and "ret \<noteq> len \<Longrightarrow> snd (setup_server env buffer) = Threw ''send error''"
    and "ret \<noteq> len \<Longrightarrow> list_all is_release post"
    by auto
next
  assume tr: "fst (setup_client env buffer) = pre @ Send fd payload len ret # post"
  have "sends_checked [''hello'', ''END_MESSAGE''] (snd (setup_client env buffer))
          (pre @ Send fd payload len ret # post)"
    using setup_client_sends_checked [of env buffer] unfolding tr .
  from sends_checked_at [OF this]
  show "payload = ''hello'' \<and> len = 5 \<or> payload = ''END_MESSAGE'' \<and> len = 11"
    and "ret \<noteq> len \<Longrightarrow> snd (setup_client env buffer) = Threw ''send error''"
    and "ret \<noteq> len \<Longrightarrow> list_all is_release post"
    by auto
qed

text \<open>A server whose acknowledgement is cut to 1 byte, and a client whose
  \<^verbatim>\<open>hello\<close> is cut to 3 bytes.\<close>

theorem sends_fail_fast_witness:
  "fst (setup_server (sample_os \<lparr> send_rets := [1] \<rparr>) stale_buffer) =
     [GetAddrInfo ''20453'' 0 [sample_addrinfo], PrintAddrInfo [sample_addrinfo],
      Socket 2 1 6 3, Bind 3 [127, 0, 0, 1] 16 0, Listen 3 2 0, Accept 3 4,
      Recv 4 63 5 ''hello'', Stdout (''server received: hello'' @ [CHR 0x0A])]
     @ Send 4 ''OK'' 2 1 # [CloseSocket 4, CloseSocket 3, FreeAddrInfo [sample_addrinfo]]
   \<and> snd (setup_server (sample_os \<lparr> send_rets := [1] \<rparr>) stale_buffer) = Threw ''send error''
   \<and> fst (setup_client (sample_os \<lparr> send_rets := [3] \<rparr>) stale_buffer) =
     [GetAddrInfo ''20453'' 0 [sample_addrinfo], PrintAddrInfo [sample_addrinfo],
      Socket 2 1 6 3, Connect 3 [127, 0, 0, 1] 16 0]
     @ Send 3 ''hello'' 5 3 # [CloseSocket 3, FreeAddrInfo [sample_addrinfo]]
   \<and> snd (setup_client (sample_os \<lparr> send_rets := [3] \<rparr>) stale_buffer) = Threw ''send error''"
proof -
  let ?server = "sample_os \<lparr> send_rets := [1] \<rparr>"
  let ?client = "sample_os \<lparr> send_rets := [3] \<rparr>"
  have a: "ai_family sample_addrinfo = 2" "ai_socktype sample_addrinfo = 1"
    "ai_protocol sample_addrinfo = 6" "ai_addr sample_addrinfo = [127, 0, 0, 1]"
    "int (ai_addrlen sample_addrinfo) = 16"
    by (simp_all add: sample_addrinfo_def)
  have s: "getaddrinfo_status ?server = 0" "getaddrinfo_res ?server = [sample_addrinfo]"
    "socket_ret ?server \<noteq> - 1" "bind_ret ?server \<noteq> - 1" "listen_ret ?server \<noteq> - 1"
    "accept_ret ?server \<noteq> - 1"
    by (simp_all add: sample_os_def)
  have s': "socket_ret ?server = 3" "bind_ret ?server = 0" "listen_ret ?server = 0"
    "accept_ret ?server = 4" "send_rets ?server = [1]"
    "recv_replies ?server = [RecvBytes ''hello'', RecvBytes ''END_MESSAGE'']"
    by (simp_all add: sample_os_def)
  have loop: "server_loop 4 stale_buffer [RecvBytes ''hello'', RecvBytes ''END_MESSAGE''] [1] =
      ([Recv 4 63 5 ''hello'', Stdout (''server received: hello'' @ [CHR 0x0A]), Send 4 ''OK'' 2 1],
       Threw ''send error'')"
    by (simp add: server_loop_bytes stale_buffer_def c_str_def NUL_def END_MESSAGE_def)
  have server: "fst (setup_server ?server stale_buffer) =
     [GetAddrInfo ''20453'' 0 [sample_addrinfo], PrintAddrInfo [sample_addrinfo],
      Socket 2 1 6 3, Bind 3 [127, 0, 0, 1] 16 0, Listen 3 2 0, Accept 3 4,
      Recv 4 63 5 ''hello'', Stdout (''server received: hello'' @ [CHR 0x0A])]
     @ Send 4 ''OK'' 2 1 # [CloseSocket 4, CloseSocket 3, FreeAddrInfo [sample_addrinfo]]"
    unfolding setup_server_accepted [OF s] s' a loop PORT_TEST_def
    by (simp add: dtor_events)
  have c: "getaddrinfo_status ?client = 0" "getaddrinfo_res ?client = [sample_addrinfo]"
    "socket_ret ?client \<noteq> - 1" "connect_ret ?client \<noteq> - 1"
    by (simp_all add: sample_os_def)
  have c': "socket_ret ?client = 3" "connect_ret ?client = 0" "send_rets ?client = [3]"
    by (simp_all add: sample_os_def)
  have client: "fst (setup_client ?client stale_buffer) =
     [GetAddrInfo ''20453'' 0 [sample_addrinfo], PrintAddrInfo [sample_addrinfo],
      Socket 2 1 6 3, Connect 3 [127, 0, 0, 1] 16 0]
     @ Send 3 ''hello'' 5 3 # [CloseSocket 3, FreeAddrInfo [sample_addrinfo]]"
    unfolding setup_client_connected [OF c] c' a PORT_TEST_def
    by (simp add: client_exchange_def dtor_events)
  show ?thesis
    using server client
      sends_fail_fast [of ?server stale_buffer
        "[GetAddrInfo ''20453'' 0 [sample_addrinfo], PrintAddrInfo [sample_addrinfo],
          Socket 2 1 6 3, Bind 3 [127, 0, 0, 1] 16 0, Listen 3 2 0, Accept 3 4,
          Recv 4 63 5 ''hello'', Stdout (''server received: hello'' @ [CHR 0x0A])]"
        4 "''OK''" 2 1
        "[CloseSocket 4, CloseSocket 3, FreeAddrInfo [sample_addrinfo]]"]
      sends_fail_fast [of ?client stale_buffer
        "[GetAddrInfo ''20453'' 0 [sample_addrinfo], PrintAddrInfo [sample_addrinfo],
          Socket 2 1 6 3, Connect 3 [127, 0, 0, 1] 16 0]"
        3 "''hello''" 5 3
        "[CloseSocket 3, FreeAddrInfo [sample_addrinfo]]"]
    by simp
qed

subsection \<open>What a run holds and releases\<close>

lemma track_exchange_only: "list_all is_exchange tr \<Longrightarrow> track held tr = Some held"
  using track_exchange [of tr held "[]"] by simp


lemma setup_server_track:
  "track [] (fst (setup_server env buffer)) \<noteq> None
   \<and> (snd (setup_server env buffer) \<noteq> Blocked \<and> snd (setup_server env buffer) \<noteq> Undefined \<longrightarrow>
        track [] (fst (setup_server env buffer)) = Some [])"
proof (cases rule: server_paths [of env])
  case lookup_failed
  then show ?thesis by (simp add: setup_server_lookup_failed)
next
  case null
  then show ?thesis by (simp add: setup_server_null)
next
  case (socket_failed a as)
  then show ?thesis by (simp add: setup_server_socket_failed)
next
  case (bind_failed a as)
  then show ?thesis by (simp add: setup_server_bind_failed)
next
  case (listen_failed a as)
  then show ?thesis by (simp add: setup_server_listen_failed)
next
  case (accept_failed a as)
  then show ?thesis by (simp add: setup_server_accept_failed)
next
  case (accepted a as)
  have loop: "list_all is_exchange (fst (server_loop (accept_ret env) buffer (recv_replies env) (send_rets env)))"
    by (rule server_loop_exchange_only)
  show ?thesis
    using accepted(3,6)
    unfolding setup_server_accepted [OF accepted]
    by (simp add: leave_scope_outcome leave_scope_trace dtor_events
        track_exchange [OF loop] track_exchange_only [OF loop])
qed

lemma setup_client_track:
  "track [] (fst (setup_client env buffer)) \<noteq> None
   \<and> (snd (setup_client env buffer) \<noteq> Blocked \<and> snd (setup_client env buffer) \<noteq> Undefined \<longrightarrow>
        track [] (fst (setup_client env buffer)) = Some [])"
proof (cases rule: client_paths [of env])
  case lookup_failed
  then show ?thesis by (simp add: setup_client_lookup_failed)
next
  case null
  then show ?thesis by (simp add: setup_client_null)
next
  case (socket_failed a as)
  then show ?thesis by (simp add: setup_client_socket_failed)
next
  case (connect_failed a as)
  then show ?thesis by (simp add: setup_client_connect_failed)
next
  case (connected a as)
  have ex: "list_all is_exchange (fst (client_exchange (socket_ret env) buffer (recv_replies env) (send_rets env)))"
    by (rule client_exchange_only)
  show ?thesis
    using connected(3)
    unfolding setup_client_connected [OF connected]
    by (simp add: leave_scope_outcome leave_scope_trace dtor_events
        track_exchange [OF ex] track_exchange_only [OF ex])
qed


subsection \<open>C7: every exit releases what was acquired\<close>

text \<open>
  C7. Whenever the server or the client ends, by a normal return or by any of its errors
  (lookup, socket creation, bind, listen, accept, connect, send, receive), every
  descriptor and the resolved address list acquired during the run have been released
  by the time it ends: nothing is held after the run, and nothing was released that was
  not held. In particular a client whose \<^verbatim>\<open>connect\<close> fails closes its descriptor and
  frees the list before the connect error leaves the procedure.
\<close>

theorem every_exit_releases:
  "(snd (setup_server env buffer) \<noteq> Blocked \<and> snd (setup_server env buffer) \<noteq> Undefined \<longrightarrow>
      track [] (fst (setup_server env buffer)) = Some [])
   \<and> (snd (setup_client env buffer) \<noteq> Blocked \<and> snd (setup_client env buffer) \<noteq> Undefined \<longrightarrow>
      track [] (fst (setup_client env buffer)) = Some [])
   \<and> (getaddrinfo_status env = 0 \<and> getaddrinfo_res env = a # as
        \<and> socket_ret env \<noteq> - 1 \<and> connect_ret env = - 1 \<longrightarrow>
      setup_client env buffer =
        ([GetAddrInfo PORT_TEST 0 (a # as), PrintAddrInfo (a # as),
          Socket (ai_family a) (ai_socktype a) (ai_protocol a) (socket_ret env),
          Connect (socket_ret env) (ai_addr a) (int (ai_addrlen a)) (- 1),
          CloseSocket (socket_ret env), FreeAddrInfo (a # as)],
         Threw ''connect error''))"
  using setup_server_track [of env buffer] setup_client_track [of env buffer]
  by (simp add: setup_client_connect_failed)

text \<open>A server whose \<^verbatim>\<open>bind\<close> fails and a client whose \<^verbatim>\<open>connect\<close> fails.\<close>

theorem every_exit_releases_witness:
  "snd (setup_server (sample_os \<lparr> bind_ret := - 1 \<rparr>) stale_buffer) = Threw ''bind error''
   \<and> track [] (fst (setup_server (sample_os \<lparr> bind_ret := - 1 \<rparr>) stale_buffer)) = Some []
   \<and> setup_client (sample_os \<lparr> connect_ret := - 1 \<rparr>) stale_buffer =
        ([GetAddrInfo ''20453'' 0 [sample_addrinfo], PrintAddrInfo [sample_addrinfo],
          Socket 2 1 6 3, Connect 3 [127, 0, 0, 1] 16 (- 1),
          CloseSocket 3, FreeAddrInfo [sample_addrinfo]],
         Threw ''connect error'')
   \<and> track [] (fst (setup_client (sample_os \<lparr> connect_ret := - 1 \<rparr>) stale_buffer)) = Some []"
proof -
  let ?server = "sample_os \<lparr> bind_ret := - 1 \<rparr>"
  let ?client = "sample_os \<lparr> connect_ret := - 1 \<rparr>"
  have a: "ai_family sample_addrinfo = 2" "ai_socktype sample_addrinfo = 1"
    "ai_protocol sample_addrinfo = 6" "ai_addr sample_addrinfo = [127, 0, 0, 1]"
    "int (ai_addrlen sample_addrinfo) = 16"
    by (simp_all add: sample_addrinfo_def)
  have s: "getaddrinfo_status ?server = 0" "getaddrinfo_res ?server = [sample_addrinfo]"
    "socket_ret ?server \<noteq> - 1" "bind_ret ?server = - 1"
    by (simp_all add: sample_os_def)
  have thrown: "snd (setup_server ?server stale_buffer) = Threw ''bind error''"
    by (simp add: setup_server_bind_failed [OF s])
  have c: "getaddrinfo_status ?client = 0" "getaddrinfo_res ?client = [sample_addrinfo]"
    "socket_ret ?client \<noteq> - 1" "connect_ret ?client = - 1" "socket_ret ?client = 3"
    by (simp_all add: sample_os_def)
  note server = every_exit_releases [of ?server stale_buffer]
  note client = every_exit_releases [of ?client stale_buffer sample_addrinfo "[]"]
  have run: "setup_client ?client stale_buffer =
        ([GetAddrInfo ''20453'' 0 [sample_addrinfo], PrintAddrInfo [sample_addrinfo],
          Socket 2 1 6 3, Connect 3 [127, 0, 0, 1] 16 (- 1),
          CloseSocket 3, FreeAddrInfo [sample_addrinfo]],
         Threw ''connect error'')"
    using client c(1-4) unfolding c(5) a PORT_TEST_def by simp
  have "track [] (fst (setup_client ?client stale_buffer)) = Some []"
    using client run by simp
  then show ?thesis
    using thrown server run by simp
qed

subsection \<open>C8: the accepted connection is closed before the listening socket\<close>

text \<open>
  C8. A destructor that finds both descriptors valid closes the accepted one first and
  the listening one second. So in every run of the server that accepted a connection and
  then ended, by a return or by an error, the descriptors closed are the accepted one and
  then the listening one, each once, and the run ends with these two closes followed by
  the release of the address list.
\<close>

theorem dtor_closes_client_first:
  "(clientFd s \<noteq> - 1 \<and> socketFd s \<noteq> - 1 \<longrightarrow>
      closed_fds (snd (RAIIRawSocketInfos_dtor s)) = [clientFd s, socketFd s])
   \<and> (getaddrinfo_status env = 0 \<and> getaddrinfo_res env \<noteq> [] \<and> socket_ret env \<noteq> - 1
        \<and> bind_ret env \<noteq> - 1 \<and> listen_ret env \<noteq> - 1 \<and> accept_ret env \<noteq> - 1
        \<and> snd (setup_server env buffer) \<noteq> Blocked \<and> snd (setup_server env buffer) \<noteq> Undefined \<longrightarrow>
      closed_fds (fst (setup_server env buffer)) = [accept_ret env, socket_ret env]
      \<and> (\<exists>pre. fst (setup_server env buffer) =
             pre @ [CloseSocket (accept_ret env), CloseSocket (socket_ret env),
                    FreeAddrInfo (getaddrinfo_res env)]))"
proof (intro conjI impI)
  assume "clientFd s \<noteq> - 1 \<and> socketFd s \<noteq> - 1"
  then show "closed_fds (snd (RAIIRawSocketInfos_dtor s)) = [clientFd s, socketFd s]"
    by (simp add: RAIIRawSocketInfos_dtor_def)
next
  assume h: "getaddrinfo_status env = 0 \<and> getaddrinfo_res env \<noteq> [] \<and> socket_ret env \<noteq> - 1
        \<and> bind_ret env \<noteq> - 1 \<and> listen_ret env \<noteq> - 1 \<and> accept_ret env \<noteq> - 1
        \<and> snd (setup_server env buffer) \<noteq> Blocked \<and> snd (setup_server env buffer) \<noteq> Undefined"
  then obtain a as where res: "getaddrinfo_res env = a # as"
    by (cases "getaddrinfo_res env") auto
  have acc: "getaddrinfo_status env = 0" "getaddrinfo_res env = a # as" "socket_ret env \<noteq> - 1"
    "bind_ret env \<noteq> - 1" "listen_ret env \<noteq> - 1" "accept_ret env \<noteq> - 1"
    using h res by simp_all
  have loop: "list_all is_exchange (fst (server_loop (accept_ret env) buffer (recv_replies env) (send_rets env)))"
    by (rule server_loop_exchange_only)
  have exit: "snd (server_loop (accept_ret env) buffer (recv_replies env) (send_rets env)) \<noteq> Blocked"
    "snd (server_loop (accept_ret env) buffer (recv_replies env) (send_rets env)) \<noteq> Undefined"
    using h unfolding setup_server_accepted [OF acc] by (simp_all add: leave_scope_outcome)
  show "closed_fds (fst (setup_server env buffer)) = [accept_ret env, socket_ret env]"
    using acc(3,6) exit
    unfolding setup_server_accepted [OF acc]
    by (simp add: leave_scope_trace dtor_events closed_fds_exchange [OF loop])
  show "\<exists>pre. fst (setup_server env buffer) =
             pre @ [CloseSocket (accept_ret env), CloseSocket (socket_ret env),
                    FreeAddrInfo (getaddrinfo_res env)]"
    using acc(3,6) exit res
    unfolding setup_server_accepted [OF acc]
    by (simp add: leave_scope_trace dtor_events)
qed

text \<open>The complete exchange: descriptor 4 (accepted) is closed before 3 (listening).\<close>

theorem dtor_closes_client_first_witness:
  "getaddrinfo_status sample_os = 0 \<and> getaddrinfo_res sample_os \<noteq> [] \<and> socket_ret sample_os \<noteq> - 1
   \<and> bind_ret sample_os \<noteq> - 1 \<and> listen_ret sample_os \<noteq> - 1 \<and> accept_ret sample_os \<noteq> - 1
   \<and> snd (setup_server sample_os stale_buffer) = Returned
   \<and> closed_fds (fst (setup_server sample_os stale_buffer)) = [4, 3]"
proof -
  have s: "getaddrinfo_status sample_os = 0" "getaddrinfo_res sample_os = [sample_addrinfo]"
    "socket_ret sample_os \<noteq> - 1" "bind_ret sample_os \<noteq> - 1" "listen_ret sample_os \<noteq> - 1"
    "accept_ret sample_os \<noteq> - 1"
    by (simp_all add: sample_os_def)
  have s': "accept_ret sample_os = 4" "socket_ret sample_os = 3" "send_rets sample_os = [2]"
    "recv_replies sample_os = [RecvBytes ''hello'', RecvBytes ''END_MESSAGE'']"
    by (simp_all add: sample_os_def)
  have loop: "snd (server_loop 4 stale_buffer [RecvBytes ''hello'', RecvBytes ''END_MESSAGE''] [2]) = Returned"
    by (simp add: server_loop_bytes stale_buffer_def length_recv_store c_str_def NUL_def END_MESSAGE_def)
  have returned: "snd (setup_server sample_os stale_buffer) = Returned"
    unfolding setup_server_accepted [OF s] s' by (simp add: leave_scope_outcome loop)
  show ?thesis
    using s s' returned dtor_closes_client_first [of _ sample_os stale_buffer]
    by simp
qed

subsection \<open>Which error a run throws\<close>

lemma server_loop_send_error':
  "server_loop fd buffer rs ss = (tr, Threw ''send error'') \<Longrightarrow>
   \<exists>ret. Send fd ''OK'' 2 ret \<in> set tr \<and> ret \<noteq> 2"
proof (induction rs arbitrary: buffer ss tr)
  case Nil
  then show ?case by auto
next
  case (Cons r rs)
  then show ?case
    by (fastforce simp: server_loop.simps(2) Let_def split: list.splits prod.splits if_splits)
qed

lemma server_loop_recv_error':
  "server_loop fd buffer rs ss = (tr, Threw ''recv error'') \<Longrightarrow>
   \<exists>len. Recv fd len (- 1) [] \<in> set tr"
proof (induction rs arbitrary: buffer ss tr)
  case Nil
  then show ?case by auto
next
  case (Cons r rs)
  show ?case
  proof (cases r)
    case RecvError
    then show ?thesis using Cons.prems by (auto simp: server_loop_failed)
  next
    case (RecvBytes bs)
    then show ?thesis
      using Cons
      by (fastforce simp: server_loop.simps(2) Let_def split: list.splits prod.splits if_splits)
  qed
qed

lemma client_exchange_send_error:
  "snd (client_exchange fd buffer rs ss) = Threw ''send error'' \<Longrightarrow>
   \<exists>payload len ret. Send fd payload len ret \<in> set (fst (client_exchange fd buffer rs ss)) \<and> ret \<noteq> len"
  by (auto simp: client_exchange_def Let_def split: list.splits if_splits)

lemma client_exchange_recv_error:
  assumes "snd (client_exchange fd buffer rs ss) = Threw ''recv error''"
  shows "\<exists>len. Recv fd len (- 1) [] \<in> set (fst (client_exchange fd buffer rs ss))"
proof (cases rs)
  case Nil
  then show ?thesis
    using assms by (auto simp: client_exchange_def Let_def split: list.splits if_splits)
next
  case (Cons r rs')
  then show ?thesis
    using assms
    by (cases r) (auto simp: client_exchange_def Let_def split: list.splits if_splits)
qed

lemma client_exchange_recv_failed:
  "Recv fd' len ret bs \<in> set (fst (client_exchange fd buffer rs ss)) \<Longrightarrow> ret < 0 \<Longrightarrow>
   snd (client_exchange fd buffer rs ss) = Threw ''recv error''"
  by (auto simp: client_exchange_def Let_def split: list.splits if_splits)


lemma setup_server_send_failed:
  assumes "Send fd payload len ret \<in> set (fst (setup_server env buffer))" and "ret \<noteq> len"
  shows "snd (setup_server env buffer) = Threw ''send error''"
proof -
  obtain pre post where tr: "fst (setup_server env buffer) = pre @ Send fd payload len ret # post"
    using assms(1) by (auto dest: split_list)
  have "sends_checked [''OK''] (snd (setup_server env buffer)) (pre @ Send fd payload len ret # post)"
    using setup_server_sends_checked [of env buffer] unfolding tr .
  from sends_checked_at [OF this] assms(2) show ?thesis by simp
qed

lemma setup_client_send_failed:
  assumes "Send fd payload len ret \<in> set (fst (setup_client env buffer))" and "ret \<noteq> len"
  shows "snd (setup_client env buffer) = Threw ''send error''"
proof -
  obtain pre post where tr: "fst (setup_client env buffer) = pre @ Send fd payload len ret # post"
    using assms(1) by (auto dest: split_list)
  have "sends_checked [''hello'', ''END_MESSAGE''] (snd (setup_client env buffer))
          (pre @ Send fd payload len ret # post)"
    using setup_client_sends_checked [of env buffer] unfolding tr .
  from sends_checked_at [OF this] assms(2) show ?thesis by simp
qed

lemma setup_server_recv_failed:
  assumes "Recv fd len (- 1) bs \<in> set (fst (setup_server env buffer))"
  shows "snd (setup_server env buffer) = Threw ''recv error''"
proof (cases rule: server_paths [of env])
  case lookup_failed
  then show ?thesis using assms by (simp add: setup_server_lookup_failed)
next
  case null
  then show ?thesis using assms by (simp add: setup_server_null)
next
  case (socket_failed a as)
  then show ?thesis using assms by (simp add: setup_server_socket_failed)
next
  case (bind_failed a as)
  then show ?thesis using assms by (simp add: setup_server_bind_failed)
next
  case (listen_failed a as)
  then show ?thesis using assms by (simp add: setup_server_listen_failed)
next
  case (accept_failed a as)
  then show ?thesis using assms by (simp add: setup_server_accept_failed)
next
  case (accepted a as)
  have "Recv fd len (- 1) bs \<in> set (fst (server_loop (accept_ret env) buffer (recv_replies env) (send_rets env)))"
    using assms unfolding setup_server_accepted [OF accepted]
    by (auto simp: leave_scope_trace dtor_events split: if_splits)
  then have "snd (server_loop (accept_ret env) buffer (recv_replies env) (send_rets env)) = Threw ''recv error''"
    using server_loop_recv_zero_or_failed [of fd len "- 1" bs "accept_ret env" buffer "recv_replies env" "send_rets env"]
    by simp
  then show ?thesis
    unfolding setup_server_accepted [OF accepted] by (simp add: leave_scope_outcome)
qed

lemma setup_client_recv_failed:
  assumes "Recv fd len (- 1) bs \<in> set (fst (setup_client env buffer))"
  shows "snd (setup_client env buffer) = Threw ''recv error''"
proof (cases rule: client_paths [of env])
  case lookup_failed
  then show ?thesis using assms by (simp add: setup_client_lookup_failed)
next
  case null
  then show ?thesis using assms by (simp add: setup_client_null)
next
  case (socket_failed a as)
  then show ?thesis using assms by (simp add: setup_client_socket_failed)
next
  case (connect_failed a as)
  then show ?thesis using assms by (simp add: setup_client_connect_failed)
next
  case (connected a as)
  have "Recv fd len (- 1) bs \<in> set (fst (client_exchange (socket_ret env) buffer (recv_replies env) (send_rets env)))"
    using assms unfolding setup_client_connected [OF connected]
    by (auto simp: leave_scope_trace dtor_events split: if_splits)
  then have "snd (client_exchange (socket_ret env) buffer (recv_replies env) (send_rets env)) = Threw ''recv error''"
    by (rule client_exchange_recv_failed) simp
  then show ?thesis
    unfolding setup_client_connected [OF connected] by (simp add: leave_scope_outcome)
qed

lemma setup_server_thrown:
  assumes "snd (setup_server env buffer) = Threw m"
  shows "m = ''getaddrinfo error'' \<and> getaddrinfo_status env \<noteq> 0
       \<or> m = ''socket error'' \<and> socket_ret env = - 1
       \<or> m = ''bind error'' \<and> bind_ret env = - 1
       \<or> m = ''listen error'' \<and> listen_ret env = - 1
       \<or> m = ''client error'' \<and> accept_ret env = - 1
       \<or> m = ''send error''
           \<and> (\<exists>fd ret. Send fd ''OK'' 2 ret \<in> set (fst (setup_server env buffer)) \<and> ret \<noteq> 2)
       \<or> m = ''recv error''
           \<and> (\<exists>fd len. Recv fd len (- 1) [] \<in> set (fst (setup_server env buffer)))"
proof (cases rule: server_paths [of env])
  case lookup_failed
  then show ?thesis using assms by (simp add: setup_server_lookup_failed)
next
  case null
  then show ?thesis using assms by (simp add: setup_server_null)
next
  case (socket_failed a as)
  then show ?thesis using assms by (simp add: setup_server_socket_failed)
next
  case (bind_failed a as)
  then show ?thesis using assms by (simp add: setup_server_bind_failed)
next
  case (listen_failed a as)
  then show ?thesis using assms by (simp add: setup_server_listen_failed)
next
  case (accept_failed a as)
  then show ?thesis using assms by (simp add: setup_server_accept_failed)
next
  case (accepted a as)
  let ?loop = "server_loop (accept_ret env) buffer (recv_replies env) (send_rets env)"
  have oc: "snd ?loop = Threw m"
    using assms unfolding setup_server_accepted [OF accepted] by (simp add: leave_scope_outcome)
  then have loop: "?loop = (fst ?loop, Threw m)"
    by (cases ?loop) simp
  have tr: "set (fst ?loop) \<subseteq> set (fst (setup_server env buffer))"
    using oc unfolding setup_server_accepted [OF accepted] by (auto simp: leave_scope_trace)
  from server_loop_throws [OF oc] show ?thesis
  proof
    assume m: "m = ''send error''"
    then obtain ret where "Send (accept_ret env) ''OK'' 2 ret \<in> set (fst ?loop)" "ret \<noteq> 2"
      using server_loop_send_error' [of "accept_ret env" buffer "recv_replies env" "send_rets env" "fst ?loop"] loop
      by auto
    then have "\<exists>fd ret. Send fd ''OK'' 2 ret \<in> set (fst (setup_server env buffer)) \<and> ret \<noteq> 2"
      using tr by blast
    then show ?thesis using m by simp
  next
    assume m: "m = ''recv error''"
    then obtain len where "Recv (accept_ret env) len (- 1) [] \<in> set (fst ?loop)"
      using server_loop_recv_error' [of "accept_ret env" buffer "recv_replies env" "send_rets env" "fst ?loop"] loop
      by auto
    then have "\<exists>fd len. Recv fd len (- 1) [] \<in> set (fst (setup_server env buffer))"
      using tr by blast
    then show ?thesis using m by simp
  qed
qed

lemma setup_client_thrown:
  assumes "snd (setup_client env buffer) = Threw m"
  shows "m = ''getaddrinfo error'' \<and> getaddrinfo_status env \<noteq> 0
       \<or> m = ''socket error'' \<and> socket_ret env = - 1
       \<or> m = ''connect error'' \<and> connect_ret env = - 1
       \<or> m = ''send error''
           \<and> (\<exists>fd payload len ret.
                 Send fd payload len ret \<in> set (fst (setup_client env buffer)) \<and> ret \<noteq> len)
       \<or> m = ''recv error''
           \<and> (\<exists>fd len. Recv fd len (- 1) [] \<in> set (fst (setup_client env buffer)))"
proof (cases rule: client_paths [of env])
  case lookup_failed
  then show ?thesis using assms by (simp add: setup_client_lookup_failed)
next
  case null
  then show ?thesis using assms by (simp add: setup_client_null)
next
  case (socket_failed a as)
  then show ?thesis using assms by (simp add: setup_client_socket_failed)
next
  case (connect_failed a as)
  then show ?thesis using assms by (simp add: setup_client_connect_failed)
next
  case (connected a as)
  let ?ex = "client_exchange (socket_ret env) buffer (recv_replies env) (send_rets env)"
  have oc: "snd ?ex = Threw m"
    using assms unfolding setup_client_connected [OF connected] by (simp add: leave_scope_outcome)
  have tr: "set (fst ?ex) \<subseteq> set (fst (setup_client env buffer))"
    using oc unfolding setup_client_connected [OF connected] by (auto simp: leave_scope_trace)
  from client_exchange_throws [OF oc] show ?thesis
  proof
    assume m: "m = ''send error''"
    then obtain payload len ret where "Send (socket_ret env) payload len ret \<in> set (fst ?ex)" "ret \<noteq> len"
      using client_exchange_send_error [of "socket_ret env" buffer "recv_replies env" "send_rets env"] oc
      by auto
    then have "\<exists>fd payload len ret.
                 Send fd payload len ret \<in> set (fst (setup_client env buffer)) \<and> ret \<noteq> len"
      using tr by blast
    then show ?thesis using m by simp
  next
    assume m: "m = ''recv error''"
    then obtain len where "Recv (socket_ret env) len (- 1) [] \<in> set (fst ?ex)"
      using client_exchange_recv_error [of "socket_ret env" buffer "recv_replies env" "send_rets env"] oc
      by auto
    then have "\<exists>fd len. Recv fd len (- 1) [] \<in> set (fst (setup_client env buffer))"
      using tr by blast
    then show ?thesis using m by simp
  qed
qed

lemma handshake_errors:
  "(getaddrinfo_status env \<noteq> 0 \<longrightarrow>
      snd (setup_server env buffer) = Threw ''getaddrinfo error''
      \<and> snd (setup_client env buffer) = Threw ''getaddrinfo error'')
   \<and> (getaddrinfo_status env = 0 \<and> getaddrinfo_res env \<noteq> [] \<longrightarrow>
        (socket_ret env = - 1 \<longrightarrow>
           snd (setup_server env buffer) = Threw ''socket error''
           \<and> snd (setup_client env buffer) = Threw ''socket error'')
      \<and> (socket_ret env \<noteq> - 1 \<and> bind_ret env = - 1 \<longrightarrow>
           snd (setup_server env buffer) = Threw ''bind error'')
      \<and> (socket_ret env \<noteq> - 1 \<and> bind_ret env \<noteq> - 1 \<and> listen_ret env = - 1 \<longrightarrow>
           snd (setup_server env buffer) = Threw ''listen error'')
      \<and> (socket_ret env \<noteq> - 1 \<and> bind_ret env \<noteq> - 1 \<and> listen_ret env \<noteq> - 1
           \<and> accept_ret env = - 1 \<longrightarrow>
           snd (setup_server env buffer) = Threw ''client error'')
      \<and> (socket_ret env \<noteq> - 1 \<and> connect_ret env = - 1 \<longrightarrow>
           snd (setup_client env buffer) = Threw ''connect error''))
   \<and> (snd (setup_server env buffer) = Threw m \<longrightarrow>
        m \<in> {''getaddrinfo error'', ''socket error'', ''bind error'', ''listen error'',
             ''client error'', ''send error'', ''recv error''})
   \<and> (snd (setup_client env buffer) = Threw m \<longrightarrow>
        m \<in> {''getaddrinfo error'', ''socket error'', ''connect error'',
             ''send error'', ''recv error''})"
proof -
  have lookup: "getaddrinfo_status env \<noteq> 0 \<longrightarrow>
      snd (setup_server env buffer) = Threw ''getaddrinfo error''
      \<and> snd (setup_client env buffer) = Threw ''getaddrinfo error''"
    by (simp add: setup_server_lookup_failed setup_client_lookup_failed)
  have server: "m \<in> {''getaddrinfo error'', ''socket error'', ''bind error'', ''listen error'',
             ''client error'', ''send error'', ''recv error''}"
    if thrown: "snd (setup_server env buffer) = Threw m"
  proof (cases rule: server_paths [of env])
    case lookup_failed
    then show ?thesis using thrown by (simp add: setup_server_lookup_failed)
  next
    case null
    then show ?thesis using thrown by (simp add: setup_server_null)
  next
    case (socket_failed a as)
    then show ?thesis using thrown by (simp add: setup_server_socket_failed)
  next
    case (bind_failed a as)
    then show ?thesis using thrown by (simp add: setup_server_bind_failed)
  next
    case (listen_failed a as)
    then show ?thesis using thrown by (simp add: setup_server_listen_failed)
  next
    case (accept_failed a as)
    then show ?thesis using thrown by (simp add: setup_server_accept_failed)
  next
    case (accepted a as)
    then have "snd (server_loop (accept_ret env) buffer (recv_replies env) (send_rets env)) = Threw m"
      using thrown by (simp add: setup_server_accepted leave_scope_outcome)
    then have "m = ''send error'' \<or> m = ''recv error''"
      by (rule server_loop_throws)
    then show ?thesis by auto
  qed
  have client: "m \<in> {''getaddrinfo error'', ''socket error'', ''connect error'',
             ''send error'', ''recv error''}"
    if thrown: "snd (setup_client env buffer) = Threw m"
  proof (cases rule: client_paths [of env])
    case lookup_failed
    then show ?thesis using thrown by (simp add: setup_client_lookup_failed)
  next
    case null
    then show ?thesis using thrown by (simp add: setup_client_null)
  next
    case (socket_failed a as)
    then show ?thesis using thrown by (simp add: setup_client_socket_failed)
  next
    case (connect_failed a as)
    then show ?thesis using thrown by (simp add: setup_client_connect_failed)
  next
    case (connected a as)
    then have "snd (client_exchange (socket_ret env) buffer (recv_replies env) (send_rets env)) = Threw m"
      using thrown by (simp add: setup_client_connected leave_scope_outcome)
    then have "m = ''send error'' \<or> m = ''recv error''"
      by (rule client_exchange_throws)
    then show ?thesis by auto
  qed
  have steps: "getaddrinfo_status env = 0 \<and> getaddrinfo_res env \<noteq> [] \<longrightarrow>
        (socket_ret env = - 1 \<longrightarrow>
           snd (setup_server env buffer) = Threw ''socket error''
           \<and> snd (setup_client env buffer) = Threw ''socket error'')
      \<and> (socket_ret env \<noteq> - 1 \<and> bind_ret env = - 1 \<longrightarrow>
           snd (setup_server env buffer) = Threw ''bind error'')
      \<and> (socket_ret env \<noteq> - 1 \<and> bind_ret env \<noteq> - 1 \<and> listen_ret env = - 1 \<longrightarrow>
           snd (setup_server env buffer) = Threw ''listen error'')
      \<and> (socket_ret env \<noteq> - 1 \<and> bind_ret env \<noteq> - 1 \<and> listen_ret env \<noteq> - 1
           \<and> accept_ret env = - 1 \<longrightarrow>
           snd (setup_server env buffer) = Threw ''client error'')
      \<and> (socket_ret env \<noteq> - 1 \<and> connect_ret env = - 1 \<longrightarrow>
           snd (setup_client env buffer) = Threw ''connect error'')"
  proof (cases "getaddrinfo_res env")
    case Nil
    then show ?thesis by simp
  next
    case (Cons a as)
    then show ?thesis
      by (simp add: setup_server_socket_failed setup_client_socket_failed setup_server_bind_failed
          setup_server_listen_failed setup_server_accept_failed setup_client_connect_failed)
  qed
  have server': "snd (setup_server env buffer) = Threw m \<longrightarrow>
        m \<in> {''getaddrinfo error'', ''socket error'', ''bind error'', ''listen error'',
             ''client error'', ''send error'', ''recv error''}"
    by (rule impI) (rule server)
  have client': "snd (setup_client env buffer) = Threw m \<longrightarrow>
        m \<in> {''getaddrinfo error'', ''socket error'', ''connect error'',
             ''send error'', ''recv error''}"
    by (rule impI) (rule client)
  show ?thesis
    by (rule conjI [OF lookup conjI [OF steps conjI [OF server' client']]])
qed

subsection \<open>C5: what an error carries\<close>

text \<open>
  C5, as amended. Whenever the lookup returns a non-zero status, either procedure fails
  with the runtime error whose message is \<^verbatim>\<open>getaddrinfo error\<close>, whatever the
  status. More generally every failure is a runtime error whose only content is a fixed
  message naming the failing step: a failed \<^verbatim>\<open>socket\<close> gives \<^verbatim>\<open>socket error\<close>,
  \<^verbatim>\<open>bind\<close> gives \<^verbatim>\<open>bind error\<close>, \<^verbatim>\<open>listen\<close> gives \<^verbatim>\<open>listen error\<close>,
  \<^verbatim>\<open>accept\<close> gives \<^verbatim>\<open>client error\<close>, \<^verbatim>\<open>connect\<close> gives
  \<^verbatim>\<open>connect error\<close>, a \<^verbatim>\<open>send\<close> that returns another number than the length it
  was given gives \<^verbatim>\<open>send error\<close>, and a \<^verbatim>\<open>recv\<close> that returns -1 gives
  \<^verbatim>\<open>recv error\<close>, in the server and in the client. Conversely each message is thrown
  only when its step failed in the run, and no other message is thrown. No error carries
  the lookup status or any other status of the operating system.
\<close>

theorem errors_name_the_step:
  "(getaddrinfo_status env \<noteq> 0 \<longrightarrow>
      snd (setup_server env buffer) = Threw ''getaddrinfo error''
      \<and> snd (setup_client env buffer) = Threw ''getaddrinfo error'')
   \<and> (getaddrinfo_status env = 0 \<and> getaddrinfo_res env \<noteq> [] \<longrightarrow>
        (socket_ret env = - 1 \<longrightarrow>
           snd (setup_server env buffer) = Threw ''socket error''
           \<and> snd (setup_client env buffer) = Threw ''socket error'')
      \<and> (socket_ret env \<noteq> - 1 \<and> bind_ret env = - 1 \<longrightarrow>
           snd (setup_server env buffer) = Threw ''bind error'')
      \<and> (socket_ret env \<noteq> - 1 \<and> bind_ret env \<noteq> - 1 \<and> listen_ret env = - 1 \<longrightarrow>
           snd (setup_server env buffer) = Threw ''listen error'')
      \<and> (socket_ret env \<noteq> - 1 \<and> bind_ret env \<noteq> - 1 \<and> listen_ret env \<noteq> - 1
           \<and> accept_ret env = - 1 \<longrightarrow>
           snd (setup_server env buffer) = Threw ''client error'')
      \<and> (socket_ret env \<noteq> - 1 \<and> connect_ret env = - 1 \<longrightarrow>
           snd (setup_client env buffer) = Threw ''connect error''))
   \<and> (Send fd payload len ret \<in> set (fst (setup_server env buffer)) \<and> ret \<noteq> len \<longrightarrow>
        snd (setup_server env buffer) = Threw ''send error'')
   \<and> (Send fd payload len ret \<in> set (fst (setup_client env buffer)) \<and> ret \<noteq> len \<longrightarrow>
        snd (setup_client env buffer) = Threw ''send error'')
   \<and> (Recv fd' len' (- 1) bs \<in> set (fst (setup_server env buffer)) \<longrightarrow>
        snd (setup_server env buffer) = Threw ''recv error'')
   \<and> (Recv fd' len' (- 1) bs \<in> set (fst (setup_client env buffer)) \<longrightarrow>
        snd (setup_client env buffer) = Threw ''recv error'')
   \<and> (snd (setup_server env buffer) = Threw m \<longrightarrow>
        m = ''getaddrinfo error'' \<and> getaddrinfo_status env \<noteq> 0
        \<or> m = ''socket error'' \<and> socket_ret env = - 1
        \<or> m = ''bind error'' \<and> bind_ret env = - 1
        \<or> m = ''listen error'' \<and> listen_ret env = - 1
        \<or> m = ''client error'' \<and> accept_ret env = - 1
        \<or> m = ''send error''
            \<and> (\<exists>fd ret. Send fd ''OK'' 2 ret \<in> set (fst (setup_server env buffer)) \<and> ret \<noteq> 2)
        \<or> m = ''recv error''
            \<and> (\<exists>fd len. Recv fd len (- 1) [] \<in> set (fst (setup_server env buffer))))
   \<and> (snd (setup_client env buffer) = Threw m \<longrightarrow>
        m = ''getaddrinfo error'' \<and> getaddrinfo_status env \<noteq> 0
        \<or> m = ''socket error'' \<and> socket_ret env = - 1
        \<or> m = ''connect error'' \<and> connect_ret env = - 1
        \<or> m = ''send error''
            \<and> (\<exists>fd payload len ret.
                  Send fd payload len ret \<in> set (fst (setup_client env buffer)) \<and> ret \<noteq> len)
        \<or> m = ''recv error''
            \<and> (\<exists>fd len. Recv fd len (- 1) [] \<in> set (fst (setup_client env buffer))))
   \<and> (snd (setup_server env buffer) = Threw m \<longrightarrow>
        m \<in> {''getaddrinfo error'', ''socket error'', ''bind error'', ''listen error'',
             ''client error'', ''send error'', ''recv error''})
   \<and> (snd (setup_client env buffer) = Threw m \<longrightarrow>
        m \<in> {''getaddrinfo error'', ''socket error'', ''connect error'',
             ''send error'', ''recv error''})"
proof -
  note h = handshake_errors [of env buffer m]
  have lookup: "getaddrinfo_status env \<noteq> 0 \<longrightarrow>
      snd (setup_server env buffer) = Threw ''getaddrinfo error''
      \<and> snd (setup_client env buffer) = Threw ''getaddrinfo error''"
    by (rule conjunct1 [OF h])
  note h2 = conjunct2 [OF h]
  note steps = conjunct1 [OF h2]
  note bounds = conjunct2 [OF h2]
  have send_server: "Send fd payload len ret \<in> set (fst (setup_server env buffer)) \<and> ret \<noteq> len \<longrightarrow>
        snd (setup_server env buffer) = Threw ''send error''"
    using setup_server_send_failed [of fd payload len ret env buffer] by blast
  have send_client: "Send fd payload len ret \<in> set (fst (setup_client env buffer)) \<and> ret \<noteq> len \<longrightarrow>
        snd (setup_client env buffer) = Threw ''send error''"
    using setup_client_send_failed [of fd payload len ret env buffer] by blast
  have recv_server: "Recv fd' len' (- 1) bs \<in> set (fst (setup_server env buffer)) \<longrightarrow>
        snd (setup_server env buffer) = Threw ''recv error''"
    using setup_server_recv_failed [of fd' len' bs env buffer] by blast
  have recv_client: "Recv fd' len' (- 1) bs \<in> set (fst (setup_client env buffer)) \<longrightarrow>
        snd (setup_client env buffer) = Threw ''recv error''"
    using setup_client_recv_failed [of fd' len' bs env buffer] by blast
  note thrown_server = impI [OF setup_server_thrown [of env buffer m]]
  note thrown_client = impI [OF setup_client_thrown [of env buffer m]]
  show ?thesis
    by (rule conjI [OF lookup conjI [OF steps conjI [OF send_server conjI [OF send_client
          conjI [OF recv_server conjI [OF recv_client conjI [OF thrown_server
          conjI [OF thrown_client bounds]]]]]]]])
qed

text \<open>A failed lookup in both procedures, a refused connection, an acknowledgement and
  a \<^verbatim>\<open>hello\<close> cut short, and a failed read in the server and in the client.\<close>

theorem errors_name_the_step_witness:
  "getaddrinfo_status (sample_os \<lparr> getaddrinfo_status := 11001, getaddrinfo_res := [] \<rparr>) \<noteq> 0
   \<and> snd (setup_server (sample_os \<lparr> getaddrinfo_status := 11001, getaddrinfo_res := [] \<rparr>) stale_buffer)
       = Threw ''getaddrinfo error''
   \<and> snd (setup_client (sample_os \<lparr> getaddrinfo_status := 11001, getaddrinfo_res := [] \<rparr>) stale_buffer)
       = Threw ''getaddrinfo error''
   \<and> connect_ret (sample_os \<lparr> connect_ret := - 1 \<rparr>) = - 1
   \<and> snd (setup_client (sample_os \<lparr> connect_ret := - 1 \<rparr>) stale_buffer) = Threw ''connect error''
   \<and> Send 4 ''OK'' 2 1 \<in> set (fst (setup_server (sample_os \<lparr> send_rets := [1] \<rparr>) stale_buffer))
   \<and> snd (setup_server (sample_os \<lparr> send_rets := [1] \<rparr>) stale_buffer) = Threw ''send error''
   \<and> Send 3 ''hello'' 5 3 \<in> set (fst (setup_client (sample_os \<lparr> send_rets := [3] \<rparr>) stale_buffer))
   \<and> snd (setup_client (sample_os \<lparr> send_rets := [3] \<rparr>) stale_buffer) = Threw ''send error''
   \<and> Recv 4 63 (- 1) [] \<in> set (fst (setup_server (sample_os \<lparr> recv_replies := [RecvError] \<rparr>) stale_buffer))
   \<and> snd (setup_server (sample_os \<lparr> recv_replies := [RecvError] \<rparr>) stale_buffer) = Threw ''recv error''
   \<and> Recv 3 63 (- 1) []
        \<in> set (fst (setup_client (sample_os \<lparr> recv_replies := [RecvError], send_rets := [5, 11] \<rparr>)
                      stale_buffer))
   \<and> snd (setup_client (sample_os \<lparr> recv_replies := [RecvError], send_rets := [5, 11] \<rparr>) stale_buffer)
       = Threw ''recv error''"
proof -
  let ?lookup = "sample_os \<lparr> getaddrinfo_status := 11001, getaddrinfo_res := [] \<rparr>"
  let ?refused = "sample_os \<lparr> connect_ret := - 1 \<rparr>"
  let ?short_ack = "sample_os \<lparr> send_rets := [1] \<rparr>"
  let ?short_hello = "sample_os \<lparr> send_rets := [3] \<rparr>"
  let ?read_s = "sample_os \<lparr> recv_replies := [RecvError] \<rparr>"
  let ?read_c = "sample_os \<lparr> recv_replies := [RecvError], send_rets := [5, 11] \<rparr>"
  have l: "getaddrinfo_status ?lookup \<noteq> 0"
    by simp
  have r: "getaddrinfo_status ?refused = 0" "getaddrinfo_res ?refused \<noteq> []"
    "socket_ret ?refused \<noteq> - 1" "connect_ret ?refused = - 1"
    by (simp_all add: sample_os_def)
  have sa: "getaddrinfo_status ?short_ack = 0" "getaddrinfo_res ?short_ack = [sample_addrinfo]"
    "socket_ret ?short_ack \<noteq> - 1" "bind_ret ?short_ack \<noteq> - 1" "listen_ret ?short_ack \<noteq> - 1"
    "accept_ret ?short_ack \<noteq> - 1"
    by (simp_all add: sample_os_def)
  have sa': "accept_ret ?short_ack = 4" "send_rets ?short_ack = [1]"
    "recv_replies ?short_ack = [RecvBytes ''hello'', RecvBytes ''END_MESSAGE'']"
    by (simp_all add: sample_os_def)
  have loop_sa: "server_loop 4 stale_buffer [RecvBytes ''hello'', RecvBytes ''END_MESSAGE''] [1] =
      ([Recv 4 63 5 ''hello'', Stdout (''server received: hello'' @ [CHR 0x0A]), Send 4 ''OK'' 2 1],
       Threw ''send error'')"
    by code_simp
  have m1: "Send 4 ''OK'' 2 1 \<in> set (fst (setup_server ?short_ack stale_buffer))"
    unfolding setup_server_accepted [OF sa] sa' loop_sa by (simp add: leave_scope_trace)
  have sh: "getaddrinfo_status ?short_hello = 0" "getaddrinfo_res ?short_hello = [sample_addrinfo]"
    "socket_ret ?short_hello \<noteq> - 1" "connect_ret ?short_hello \<noteq> - 1"
    by (simp_all add: sample_os_def)
  have sh': "socket_ret ?short_hello = 3" "send_rets ?short_hello = [3]"
    "recv_replies ?short_hello = [RecvBytes ''hello'', RecvBytes ''END_MESSAGE'']"
    by (simp_all add: sample_os_def)
  have exchange_sh: "client_exchange 3 stale_buffer [RecvBytes ''hello'', RecvBytes ''END_MESSAGE''] [3] =
      ([Send 3 ''hello'' 5 3], Threw ''send error'')"
    by code_simp
  have m2: "Send 3 ''hello'' 5 3 \<in> set (fst (setup_client ?short_hello stale_buffer))"
    unfolding setup_client_connected [OF sh] sh' exchange_sh
    by (simp add: leave_scope_trace)
  have rs: "getaddrinfo_status ?read_s = 0" "getaddrinfo_res ?read_s = [sample_addrinfo]"
    "socket_ret ?read_s \<noteq> - 1" "bind_ret ?read_s \<noteq> - 1" "listen_ret ?read_s \<noteq> - 1"
    "accept_ret ?read_s \<noteq> - 1"
    by (simp_all add: sample_os_def)
  have rs': "accept_ret ?read_s = 4" "recv_replies ?read_s = [RecvError]" "send_rets ?read_s = [2]"
    by (simp_all add: sample_os_def)
  have loop_rs: "server_loop 4 stale_buffer [RecvError] [2] =
      ([Recv 4 63 (- 1) []], Threw ''recv error'')"
    by code_simp
  have m3: "Recv 4 63 (- 1) [] \<in> set (fst (setup_server ?read_s stale_buffer))"
    unfolding setup_server_accepted [OF rs] rs' loop_rs
    by (simp add: leave_scope_trace)
  have rc: "getaddrinfo_status ?read_c = 0" "getaddrinfo_res ?read_c = [sample_addrinfo]"
    "socket_ret ?read_c \<noteq> - 1" "connect_ret ?read_c \<noteq> - 1"
    by (simp_all add: sample_os_def)
  have rc': "socket_ret ?read_c = 3" "send_rets ?read_c = [5, 11]" "recv_replies ?read_c = [RecvError]"
    by (simp_all add: sample_os_def)
  have exchange_rc: "client_exchange 3 stale_buffer [RecvError] [5, 11] =
      ([Send 3 ''hello'' 5 5, Recv 3 63 (- 1) []], Threw ''recv error'')"
    by code_simp
  have m4: "Recv 3 63 (- 1) [] \<in> set (fst (setup_client ?read_c stale_buffer))"
    unfolding setup_client_connected [OF rc] rc' exchange_rc
    by (simp add: leave_scope_trace)
  note t1 = errors_name_the_step [where env = ?lookup and buffer = stale_buffer]
  note t2 = errors_name_the_step [where env = ?refused and buffer = stale_buffer]
  note t3 = errors_name_the_step [where env = ?short_ack and buffer = stale_buffer
      and fd = 4 and payload = "''OK''" and len = 2 and ret = 1]
  note t4 = errors_name_the_step [where env = ?short_hello and buffer = stale_buffer
      and fd = 3 and payload = "''hello''" and len = 5 and ret = 3]
  note t5 = errors_name_the_step [where env = ?read_s and buffer = stale_buffer
      and fd' = 4 and len' = 63 and bs = "[]"]
  note t6 = errors_name_the_step [where env = ?read_c and buffer = stale_buffer
      and fd' = 3 and len' = 63 and bs = "[]"]
  have "snd (setup_server ?lookup stale_buffer) = Threw ''getaddrinfo error''"
    and "snd (setup_client ?lookup stale_buffer) = Threw ''getaddrinfo error''"
    using l t1 by simp_all
  moreover have "snd (setup_client ?refused stale_buffer) = Threw ''connect error''"
    using r t2 by simp
  moreover have "snd (setup_server ?short_ack stale_buffer) = Threw ''send error''"
    using m1 t3 by simp
  moreover have "snd (setup_client ?short_hello stale_buffer) = Threw ''send error''"
    using m2 t4 by simp
  moreover have "snd (setup_server ?read_s stale_buffer) = Threw ''recv error''"
    using m3 t5 by simp
  moreover have "snd (setup_client ?read_c stale_buffer) = Threw ''recv error''"
    using m4 t6 by simp
  ultimately show ?thesis
    using l r(4) m1 m2 m3 m4 by simp
qed

text \<open>
  C5 as it is written fails: the error does not carry the lookup status. The lookup
  statuses 11001 and 11002 give the same error, in the server and in the client.
\<close>

theorem errors_name_the_step_counterexample:
  "getaddrinfo_status (sample_os \<lparr> getaddrinfo_status := 11001, getaddrinfo_res := [] \<rparr>) = 11001
   \<and> getaddrinfo_status (sample_os \<lparr> getaddrinfo_status := 11002, getaddrinfo_res := [] \<rparr>) = 11002
   \<and> snd (setup_server (sample_os \<lparr> getaddrinfo_status := 11001, getaddrinfo_res := [] \<rparr>) stale_buffer)
       = Threw ''getaddrinfo error''
   \<and> snd (setup_server (sample_os \<lparr> getaddrinfo_status := 11002, getaddrinfo_res := [] \<rparr>) stale_buffer)
       = Threw ''getaddrinfo error''
   \<and> snd (setup_client (sample_os \<lparr> getaddrinfo_status := 11001, getaddrinfo_res := [] \<rparr>) stale_buffer)
       = Threw ''getaddrinfo error''
   \<and> snd (setup_client (sample_os \<lparr> getaddrinfo_status := 11002, getaddrinfo_res := [] \<rparr>) stale_buffer)
       = Threw ''getaddrinfo error''"
  by (simp add: setup_server_lookup_failed setup_client_lookup_failed)

subsection \<open>C9: at most one release\<close>





end
